theory Spec2Isabelle
  imports Main
begin

section \<open>Data model\<close>

text \<open>
  Instants are milliseconds since the epoch, as \<^verbatim>\<open>Date.now()\<close> and the value of
  \<^verbatim>\<open>new Date()\<close> are. The clock reads of one request are taken as one instant.
\<close>

type_synonym time = int

subsection \<open>JavaScript truthiness of an optional string\<close>

text \<open>
  \<^verbatim>\<open>undefined\<close> is \<open>None\<close>. A string is falsy exactly when it is empty, so
  \<^verbatim>\<open>a || b\<close> yields \<open>a\<close> when \<open>a\<close> is a non-empty string and \<open>b\<close> otherwise.
\<close>

definition truthy :: "string option \<Rightarrow> bool" where
  "truthy v = (case v of None \<Rightarrow> False | Some s \<Rightarrow> s \<noteq> [])"

definition js_or :: "string option \<Rightarrow> string option \<Rightarrow> string option" where
  "js_or a b = (if truthy a then a else b)"

text \<open>\<^verbatim>\<open>x || null\<close>: a falsy value becomes null.\<close>

definition or_null :: "string option \<Rightarrow> string option" where
  "or_null a = (if truthy a then a else None)"

subsection \<open>The table \<^verbatim>\<open>refresh_token_sessions\<close>\<close>

text \<open>
  One row of \<^verbatim>\<open>models/refresh_token_session.model.js\<close>. The columns
  \<^verbatim>\<open>createdAt\<close> and \<^verbatim>\<open>updatedAt\<close> that Sequelize maintains are left out: no
  controller reads them.
\<close>

record refresh_token_session =
  refresh_token_session_id :: nat
  session_id :: string
  usuario_id :: nat
  token_hash :: string
  replaced_by_token_hash :: "string option"
  revoked_at :: "time option"
  expires_at :: time
  user_agent :: "string option"
  ip_address :: "string option"

subsection \<open>The tables \<^verbatim>\<open>usuarios\<close> and \<^verbatim>\<open>roles\<close>\<close>

text \<open>
  The model of \<^verbatim>\<open>usuario.model.js\<close> that carries \<^verbatim>\<open>must_change_password\<close>. The
  column \<^verbatim>\<open>usuario_id\<close> is the field \<open>usuario_pk\<close> here (the session row already has a
  field of that name). The table is paranoid: a row whose \<open>deleted_at\<close> is set is
  invisible to \<^verbatim>\<open>findOne\<close> and \<^verbatim>\<open>findByPk\<close>.
\<close>

record usuario =
  usuario_pk :: nat
  nombre :: string
  rol_id :: nat
  correo :: string
  contrasena :: string
  must_change_password :: bool
  deleted_at :: "time option"

record rol =
  rol_pk :: nat
  nombre_rol :: string

record database =
  Usuario :: "usuario list"
  Rol :: "rol list"
  RefreshTokenSession :: "refresh_token_session list"

subsection \<open>Sequelize operations used by the controllers\<close>

text \<open>\<^verbatim>\<open>Model.findOne({ where })\<close>: the first row that satisfies the condition.\<close>

definition findOne :: "('r \<Rightarrow> bool) \<Rightarrow> 'r list \<Rightarrow> 'r option" where
  "findOne w rows = find w rows"

text \<open>\<^verbatim>\<open>Model.update(values, { where })\<close>: every row that satisfies the condition.\<close>

definition update_where :: "('r \<Rightarrow> bool) \<Rightarrow> ('r \<Rightarrow> 'r) \<Rightarrow> 'r list \<Rightarrow> 'r list" where
  "update_where w f rows = map (\<lambda>r. if w r then f r else r) rows"

text \<open>\<^verbatim>\<open>instance.update(values)\<close>: the row with the primary key of the instance.\<close>

definition instance_update ::
  "refresh_token_session \<Rightarrow> (refresh_token_session \<Rightarrow> refresh_token_session)
     \<Rightarrow> refresh_token_session list \<Rightarrow> refresh_token_session list" where
  "instance_update inst f rows =
     update_where (\<lambda>r. refresh_token_session_id r = refresh_token_session_id inst) f rows"

text \<open>The auto-increment primary key: above every key in the table.\<close>

definition next_id :: "refresh_token_session list \<Rightarrow> nat" where
  "next_id rows = Suc (fold max (map refresh_token_session_id rows) 0)"

text \<open>
  \<^verbatim>\<open>RefreshTokenSession.create\<close>. The columns \<^verbatim>\<open>session_id\<close> and \<^verbatim>\<open>token_hash\<close> are
  declared \<^verbatim>\<open>unique: true\<close>: an insert that repeats one of them throws, which is
  \<open>None\<close> here. A new row has neither \<^verbatim>\<open>revoked_at\<close> nor
  \<^verbatim>\<open>replaced_by_token_hash\<close>.
\<close>

definition create_session ::
  "refresh_token_session list \<Rightarrow> string \<Rightarrow> nat \<Rightarrow> string \<Rightarrow> time
     \<Rightarrow> string option \<Rightarrow> string option \<Rightarrow> refresh_token_session list option" where
  "create_session rows sid uid th exp ua ipa =
     (if sid \<in> set (map session_id rows) \<or> th \<in> set (map token_hash rows) then None
      else Some (rows @
        [\<lparr>refresh_token_session_id = next_id rows, session_id = sid, usuario_id = uid,
          token_hash = th, replaced_by_token_hash = None, revoked_at = None,
          expires_at = exp, user_agent = ua, ip_address = ipa\<rparr>]))"

section \<open>HTTP requests and responses\<close>

text \<open>
  What the handlers read of a request: the refresh cookie, the \<^verbatim>\<open>refreshToken\<close> field
  of the body, the \<^verbatim>\<open>user-agent\<close> header and \<^verbatim>\<open>req.ip\<close>.
\<close>

record request =
  cookies_refreshToken :: "string option"
  body_refreshToken :: "string option"
  headers_user_agent :: "string option"
  ip :: "string option"

text \<open>The messages the handlers send, one constructor per literal of the source.\<close>

datatype msg =
    RefreshTokenEsRequerido
  | RefreshTokenInvalidoOReutilizado
  | RefreshTokenInvalidoOExpirado
  | SesionCerradaExitosamente
  | UsuarioNoEncontrado
  | ContrasenaInvalida
  | DebeCambiarContrasena
  | ErrorEnElInicioDeSesion

datatype body =
    Message msg
  | AccessTokenBody string
  | MustChangePasswordBody nat msg
  | LoginBody nat string string string string

datatype cookie_op = CookieUntouched | SetRefreshCookie string | ClearRefreshCookie

record response =
  status :: nat
  body :: body
  cookie :: cookie_op

definition send :: "nat \<Rightarrow> body \<Rightarrow> cookie_op \<Rightarrow> response" where
  "send st b c = \<lparr>status = st, body = b, cookie = c\<rparr>"

section \<open>The rotating-session controller\<close>

text \<open>
  The claims of a verified refresh token. \<^verbatim>\<open>createRefreshToken\<close> signs
  \<^verbatim>\<open>{ id, sessionId }\<close>; the login of \<^verbatim>\<open>controllers/auth.controller.js\<close> signs
  \<^verbatim>\<open>{ id }\<close> alone with the same \<^verbatim>\<open>REFRESH_TOKEN_SECRET\<close>, and for such a token
  \<^verbatim>\<open>decoded.sessionId\<close> is \<^verbatim>\<open>undefined\<close>, which is \<open>None\<close>. Every token the
  repository signs with that secret carries \<^verbatim>\<open>id\<close>.
\<close>

record claims =
  decoded_id :: nat
  decoded_sessionId :: "string option"

text \<open>
  The helpers of the module that reach into \<^verbatim>\<open>jsonwebtoken\<close>, \<^verbatim>\<open>crypto\<close> and the
  process environment are parameters:
  \<^item> \<open>jwt_decode tok\<close> is \<open>None\<close> when \<open>tok\<close> is malformed or its signature does not
    verify against \<^verbatim>\<open>REFRESH_TOKEN_SECRET\<close>, and otherwise the claims of \<open>tok\<close> with the
    instant of its \<^verbatim>\<open>exp\<close> claim;
  \<^item> \<open>hashToken\<close> is the SHA-256 digest in hexadecimal;
  \<^item> \<open>createRefreshToken\<close> and \<open>createAccessToken\<close> sign at the instant given;
  \<^item> \<open>REFRESH_TOKEN_MAX_AGE_MS\<close> is the configured constant.
\<close>

record auth_env =
  jwt_decode :: "string \<Rightarrow> (claims \<times> time) option"
  hashToken :: "string \<Rightarrow> string"
  createRefreshToken :: "nat \<Rightarrow> string \<Rightarrow> time \<Rightarrow> string"
  createAccessToken :: "nat \<Rightarrow> time \<Rightarrow> string"
  REFRESH_TOKEN_MAX_AGE_MS :: int

text \<open>
  \<^verbatim>\<open>jwt.verify(tok, process.env.REFRESH_TOKEN_SECRET)\<close> at the instant \<open>now\<close>: it throws
  (\<open>None\<close>) on a token that does not decode and on one whose expiry has been reached.
\<close>

definition jwt_verify :: "auth_env \<Rightarrow> string \<Rightarrow> time \<Rightarrow> claims option" where
  "jwt_verify env tok now =
     (case jwt_decode env tok of
        None \<Rightarrow> None
      | Some (decoded, exp) \<Rightarrow> if now < exp then Some decoded else None)"

text \<open>The condition of the lookup in \<^verbatim>\<open>refreshToken\<close>.\<close>

definition active_match ::
  "string \<Rightarrow> nat \<Rightarrow> string \<Rightarrow> time \<Rightarrow> refresh_token_session \<Rightarrow> bool" where
  "active_match sid uid th now r \<longleftrightarrow>
     session_id r = sid \<and> usuario_id r = uid \<and> token_hash r = th
     \<and> revoked_at r = None \<and> expires_at r > now"

text \<open>
  The transaction of the rotation: the update of the found row, then the insert. When
  the insert throws, the transaction rolls back and the exception reaches the handler's
  \<^verbatim>\<open>catch\<close>; that is \<open>None\<close>.
\<close>

definition rotate_transaction ::
  "refresh_token_session list \<Rightarrow> refresh_token_session \<Rightarrow> time \<Rightarrow> string \<Rightarrow> string
     \<Rightarrow> nat \<Rightarrow> time \<Rightarrow> string option \<Rightarrow> string option
     \<Rightarrow> refresh_token_session list option" where
  "rotate_transaction rows activeSession now newSessionId newRefreshTokenHash uid exp ua ipa =
     create_session
       (instance_update activeSession
          (\<lambda>r. r\<lparr>revoked_at := Some now,
                  replaced_by_token_hash := Some newRefreshTokenHash\<rparr>) rows)
       newSessionId uid newRefreshTokenHash exp ua ipa"

text \<open>
  \<^verbatim>\<open>refreshToken\<close>. \<open>newSessionId\<close> is the value \<^verbatim>\<open>crypto.randomUUID()\<close> returns in
  this call. Sequelize refuses a where clause that holds an \<^verbatim>\<open>undefined\<close> value: for a
  token without \<^verbatim>\<open>sessionId\<close> the call of \<^verbatim>\<open>findOne\<close> throws before any query, and
  the exception reaches the \<^verbatim>\<open>catch\<close> of the handler.
\<close>

definition refreshToken ::
  "auth_env \<Rightarrow> database \<Rightarrow> request \<Rightarrow> time \<Rightarrow> string \<Rightarrow> database \<times> response" where
  "refreshToken env db req now newSessionId =
     (let refreshTokenValue = js_or (cookies_refreshToken req) (body_refreshToken req) in
      if \<not> truthy refreshTokenValue then
        (db, send 401 (Message RefreshTokenEsRequerido) CookieUntouched)
      else
        let tok = the refreshTokenValue in
        case jwt_verify env tok now of
          None \<Rightarrow> (db, send 403 (Message RefreshTokenInvalidoOExpirado) ClearRefreshCookie)
        | Some decoded \<Rightarrow>
            let tokenHash = hashToken env tok;
                rows = RefreshTokenSession db in
            (case decoded_sessionId decoded of
               None \<Rightarrow>
                 (db, send 403 (Message RefreshTokenInvalidoOExpirado) ClearRefreshCookie)
             | Some sessionId \<Rightarrow>
                 (case findOne (active_match sessionId (decoded_id decoded) tokenHash now)
                         rows of
                    None \<Rightarrow>
                      (db\<lparr>RefreshTokenSession :=
                            update_where
                              (\<lambda>r. usuario_id r = decoded_id decoded \<and> revoked_at r = None)
                              (\<lambda>r. r\<lparr>revoked_at := Some now\<rparr>) rows\<rparr>,
                       send 403 (Message RefreshTokenInvalidoOReutilizado)
                         ClearRefreshCookie)
                  | Some activeSession \<Rightarrow>
                      let newRefreshTokenValue =
                            createRefreshToken env (decoded_id decoded) newSessionId now;
                          newRefreshTokenHash = hashToken env newRefreshTokenValue in
                      (case rotate_transaction rows activeSession now newSessionId
                              newRefreshTokenHash (decoded_id decoded)
                              (now + REFRESH_TOKEN_MAX_AGE_MS env)
                              (or_null (headers_user_agent req)) (or_null (ip req)) of
                         None \<Rightarrow>
                           (db, send 403 (Message RefreshTokenInvalidoOExpirado)
                                  ClearRefreshCookie)
                       | Some rows' \<Rightarrow>
                           (db\<lparr>RefreshTokenSession := rows'\<rparr>,
                            send 200
                              (AccessTokenBody
                                 (createAccessToken env (decoded_id decoded) now))
                              (SetRefreshCookie newRefreshTokenValue))))))"

text \<open>
  \<^verbatim>\<open>logout\<close>: both the \<^verbatim>\<open>try\<close> and the \<^verbatim>\<open>catch\<close> clear the cookie and send 200. For a
  token without \<^verbatim>\<open>sessionId\<close> the where clause of the update holds an
  \<^verbatim>\<open>undefined\<close> value, the update throws and nothing is written.
\<close>

definition logout :: "auth_env \<Rightarrow> database \<Rightarrow> request \<Rightarrow> time \<Rightarrow> database \<times> response" where
  "logout env db req now =
     (let refreshTokenValue = js_or (cookies_refreshToken req) (body_refreshToken req) in
      if truthy refreshTokenValue then
        (case jwt_verify env (the refreshTokenValue) now of
           None \<Rightarrow> (db, send 200 (Message SesionCerradaExitosamente) ClearRefreshCookie)
         | Some decoded \<Rightarrow>
             (case decoded_sessionId decoded of
                None \<Rightarrow>
                  (db, send 200 (Message SesionCerradaExitosamente) ClearRefreshCookie)
              | Some sessionId \<Rightarrow>
                  (db\<lparr>RefreshTokenSession :=
                        update_where
                          (\<lambda>r. session_id r = sessionId
                               \<and> usuario_id r = decoded_id decoded \<and> revoked_at r = None)
                          (\<lambda>r. r\<lparr>revoked_at := Some now\<rparr>) (RefreshTokenSession db)\<rparr>,
                   send 200 (Message SesionCerradaExitosamente) ClearRefreshCookie)))
      else (db, send 200 (Message SesionCerradaExitosamente) ClearRefreshCookie))"

text \<open>
  A client that follows the rotation: it presents its current refresh token in the
  cookie, takes the token of the cookie the server sets, and presents that one next.
  Each step carries the instant of the request and the identifier
  \<^verbatim>\<open>crypto.randomUUID()\<close> returns in it. The result is the final database with the
  tokens presented and received, in order, or \<open>None\<close> when a refresh did not rotate.
\<close>

definition cookie_request :: "string \<Rightarrow> request" where
  "cookie_request tok =
     \<lparr>cookies_refreshToken = Some tok, body_refreshToken = None,
      headers_user_agent = None, ip = None\<rparr>"

fun rotation_chain ::
  "auth_env \<Rightarrow> database \<Rightarrow> string \<Rightarrow> (time \<times> string) list
     \<Rightarrow> (database \<times> string list) option" where
  "rotation_chain env db tok [] = Some (db, [tok])"
| "rotation_chain env db tok ((now, newSessionId) # steps) =
     (case refreshToken env db (cookie_request tok) now newSessionId of
        (db', res) \<Rightarrow>
          (case cookie res of
             SetRefreshCookie tok' \<Rightarrow>
               (case rotation_chain env db' tok' steps of
                  None \<Rightarrow> None
                | Some (db'', toks) \<Rightarrow> Some (db'', tok # toks))
           | _ \<Rightarrow> None))"

text \<open>The constraints of the table: the primary key and the two unique columns.\<close>

definition wf_sessions :: "refresh_token_session list \<Rightarrow> bool" where
  "wf_sessions rows \<longleftrightarrow>
     distinct (map refresh_token_session_id rows)
     \<and> distinct (map session_id rows) \<and> distinct (map token_hash rows)"

section \<open>The mounted login\<close>

text \<open>
  \<^verbatim>\<open>login\<close> of \<^verbatim>\<open>controllers/auth.controller.js\<close>, the handler that
  \<^verbatim>\<open>routes/auth.routes.js\<close> mounts on \<^verbatim>\<open>POST /login\<close>. \<^verbatim>\<open>bcrypt.compare\<close> and the two
  \<^verbatim>\<open>jwt.sign\<close> calls are parameters.
\<close>

record login_request =
  body_correo :: string
  body_contrasena :: string

record login_env =
  bcrypt_compare :: "string \<Rightarrow> string \<Rightarrow> bool"
  sign_access :: "nat \<Rightarrow> time \<Rightarrow> string"
  sign_refresh :: "nat \<Rightarrow> time \<Rightarrow> string"

text \<open>
  \<^verbatim>\<open>Usuario.findOne({ where, include: [Rol] })\<close>: the first user that is not soft-deleted
  and satisfies the condition, with the role its \<^verbatim>\<open>rol_id\<close> points to, if any.
\<close>

definition findOne_Usuario ::
  "database \<Rightarrow> (usuario \<Rightarrow> bool) \<Rightarrow> (usuario \<times> rol option) option" where
  "findOne_Usuario db w =
     (case findOne (\<lambda>u. deleted_at u = None \<and> w u) (Usuario db) of
        None \<Rightarrow> None
      | Some u \<Rightarrow> Some (u, findOne (\<lambda>r. rol_pk r = rol_id u) (Rol db)))"

text \<open>
  A user without a role makes \<^verbatim>\<open>usuario.Rol.nombre_rol\<close> throw, which the \<^verbatim>\<open>catch\<close>
  answers with 500.
\<close>

definition login :: "login_env \<Rightarrow> database \<Rightarrow> login_request \<Rightarrow> time \<Rightarrow> database \<times> response" where
  "login env db req now =
     (case findOne_Usuario db (\<lambda>u. correo u = body_correo req) of
        None \<Rightarrow> (db, send 404 (Message UsuarioNoEncontrado) CookieUntouched)
      | Some (usuario, usuario_Rol) \<Rightarrow>
          if \<not> bcrypt_compare env (body_contrasena req) (contrasena usuario) then
            (db, send 401 (Message ContrasenaInvalida) CookieUntouched)
          else if must_change_password usuario then
            (db, send 200 (MustChangePasswordBody (usuario_pk usuario) DebeCambiarContrasena)
                   CookieUntouched)
          else
            (case usuario_Rol of
               None \<Rightarrow> (db, send 500 (Message ErrorEnElInicioDeSesion) CookieUntouched)
             | Some r \<Rightarrow>
                 (db, send 200
                        (LoginBody (usuario_pk usuario) (nombre usuario) (nombre_rol r)
                           (sign_access env (usuario_pk usuario) now)
                           (sign_refresh env (usuario_pk usuario) now))
                        CookieUntouched)))"

text \<open>The access token a response body carries, if it carries one.\<close>

fun body_accessToken :: "body \<Rightarrow> string option" where
  "body_accessToken (AccessTokenBody t) = Some t"
| "body_accessToken (LoginBody i n r a rt) = Some a"
| "body_accessToken _ = None"

fun body_refreshTokenOut :: "body \<Rightarrow> string option" where
  "body_refreshTokenOut (LoginBody i n r a rt) = Some rt"
| "body_refreshTokenOut _ = None"

section \<open>The notification history\<close>

record notification =
  ntype :: string
  message :: string
  data :: "(string \<times> string) list"
  timestamp :: "string option"
  priority :: "string option"

record NotificationHistory =
  history :: "notification list"
  maxHistory :: nat

text \<open>The constructor.\<close>

definition new_NotificationHistory :: NotificationHistory where
  "new_NotificationHistory = \<lparr>history = [], maxHistory = 6\<rparr>"

text \<open>
  \<^verbatim>\<open>addNotification\<close>. \<open>now_iso\<close> is the value of \<^verbatim>\<open>new Date().toISOString()\<close> in this
  call. \<^verbatim>\<open>unshift\<close> puts the notification in front.
\<close>

definition addNotification ::
  "NotificationHistory \<Rightarrow> notification \<Rightarrow> string \<Rightarrow> NotificationHistory" where
  "addNotification this n now_iso =
     (let n' = (if \<not> truthy (timestamp n) then n\<lparr>timestamp := Some now_iso\<rparr> else n);
          h = n' # history this
      in this\<lparr>history := (if length h > maxHistory this then take (maxHistory this) h else h)\<rparr>)"

text \<open>
  \<^verbatim>\<open>Array.prototype.slice(0, e)\<close>: a negative end counts from the end of the array.
\<close>

definition slice0 :: "'a list \<Rightarrow> int \<Rightarrow> 'a list" where
  "slice0 xs e =
     (let len = int (length xs);
          final = (if e < 0 then max (len + e) 0 else min e len)
      in take (nat final) xs)"

text \<open>\<^verbatim>\<open>getRecentNotifications(limit = this.maxHistory)\<close>; \<open>None\<close> is the omitted argument.\<close>

definition getRecentNotifications ::
  "NotificationHistory \<Rightarrow> int option \<Rightarrow> notification list" where
  "getRecentNotifications this limit =
     slice0 (history this) (case limit of None \<Rightarrow> int (maxHistory this) | Some l \<Rightarrow> l)"

definition clearHistory :: "NotificationHistory \<Rightarrow> NotificationHistory" where
  "clearHistory this = this\<lparr>history := []\<rparr>"

text \<open>The operations that change a history, and a run of them on a new history.\<close>

datatype history_op = Add notification string | Clear

fun apply_history_op :: "NotificationHistory \<Rightarrow> history_op \<Rightarrow> NotificationHistory" where
  "apply_history_op h (Add n now_iso) = addNotification h n now_iso"
| "apply_history_op h Clear = clearHistory h"

definition run_history :: "history_op list \<Rightarrow> NotificationHistory" where
  "run_history ops = foldl apply_history_op new_NotificationHistory ops"

text \<open>What \<^verbatim>\<open>addNotification\<close> stores for a notification: the timestamp filled in.\<close>

definition stamped :: "notification \<times> string \<Rightarrow> notification" where
  "stamped p = (case p of (n, now_iso) \<Rightarrow>
     if \<not> truthy (timestamp n) then n\<lparr>timestamp := Some now_iso\<rparr> else n)"

section \<open>The realtime gateway\<close>

text \<open>
  The connection state: the handshake token, the identity \<^verbatim>\<open>authenticateSocket\<close>
  attaches, and the set \<^verbatim>\<open>socket.rooms\<close>.
\<close>

record socket =
  handshake_auth_token :: "string option"
  userId :: nat
  userRol :: string
  userName :: string
  rooms :: "string set"

text \<open>The decimal digits of a number, as a template literal prints it.\<close>

fun string_of_nat :: "nat \<Rightarrow> string" where
  "string_of_nat n =
     (if n < 10 then [''0123456789'' ! n]
      else string_of_nat (n div 10) @ [''0123456789'' ! (n mod 10)])"

definition join :: "string \<Rightarrow> socket \<Rightarrow> socket" where
  "join room socket = socket\<lparr>rooms := insert room (rooms socket)\<rparr>"

definition leave :: "string \<Rightarrow> socket \<Rightarrow> socket" where
  "leave room socket = socket\<lparr>rooms := rooms socket - {room}\<rparr>"

text \<open>\<^verbatim>\<open>assignUserToRooms\<close> of \<^verbatim>\<open>socket/middleware.js\<close>, join by join.\<close>

definition assignUserToRooms :: "socket \<Rightarrow> socket" where
  "assignUserToRooms socket =
     (let s0 = join ''notificaciones_globales'' socket;
          s1 = (if userRol socket = ''cocinero'' then join ''cocineros'' s0
                else if userRol socket = ''mesero'' then join ''meseros'' s0
                else if userRol socket = ''administrador'' then
                  join ''meseros'' (join ''cocineros'' (join ''administradores'' s0))
                else s0)
      in join (''usuario_'' @ string_of_nat (userId socket)) s1)"

datatype socket_error =
    TokenDeAutenticacionRequerido
  | UsuarioNoEncontradoEnSocket
  | TokenInvalidoOExpirado

text \<open>
  \<^verbatim>\<open>authenticateSocket\<close>. \<open>verify_access tok now\<close> is the \<^verbatim>\<open>id\<close> claim that
  \<^verbatim>\<open>jwt.verify(tok, ACCESS_TOKEN_SECRET)\<close> returns at the instant \<open>now\<close>, \<open>None\<close> when it
  throws. Every exception in the body, the missing role among them, ends in the
  \<^verbatim>\<open>catch\<close>.
\<close>

definition authenticateSocket ::
  "(string \<Rightarrow> time \<Rightarrow> nat option) \<Rightarrow> database \<Rightarrow> socket \<Rightarrow> time \<Rightarrow> socket_error + socket" where
  "authenticateSocket verify_access db socket now =
     (if \<not> truthy (handshake_auth_token socket) then Inl TokenDeAutenticacionRequerido
      else
        case verify_access (the (handshake_auth_token socket)) now of
          None \<Rightarrow> Inl TokenInvalidoOExpirado
        | Some uid \<Rightarrow>
            (case findOne_Usuario db (\<lambda>u. usuario_pk u = uid) of
               None \<Rightarrow> Inl UsuarioNoEncontradoEnSocket
             | Some (usuario, usuario_Rol) \<Rightarrow>
                 (case usuario_Rol of
                    None \<Rightarrow> Inl TokenInvalidoOExpirado
                  | Some r \<Rightarrow>
                      Inr (socket\<lparr>userId := usuario_pk usuario, userRol := nombre_rol r,
                                   userName := nombre usuario\<rparr>))))"

text \<open>What a handler sends back on the socket.\<close>

datatype socket_msg = ConectadoExitosamente | NoAutorizadoParaObtenerHistorial

datatype payload =
    ConexionConfirmada socket_msg nat string string
  | HistorialDashboard "notification list"
  | ErrorPayload socket_msg
  | EstadoConexion bool "string set" string

datatype emitted = Emit string payload

text \<open>
  The \<^verbatim>\<open>connection\<close> handler of \<^verbatim>\<open>socket/index.js\<close>: it runs for a socket that passed
  \<^verbatim>\<open>authenticateSocket\<close>, assigns the rooms and reports them.
\<close>

definition on_connection :: "socket \<Rightarrow> string \<Rightarrow> socket \<times> emitted list" where
  "on_connection socket now_iso =
     (let s = assignUserToRooms socket
      in (s, [Emit ''estado_conexion'' (EstadoConexion True (rooms s) now_iso)]))"

definition connect ::
  "(string \<Rightarrow> time \<Rightarrow> nat option) \<Rightarrow> database \<Rightarrow> socket \<Rightarrow> time \<Rightarrow> string
     \<Rightarrow> socket_error + socket \<times> emitted list" where
  "connect verify_access db socket now now_iso =
     (case authenticateSocket verify_access db socket now of
        Inl e \<Rightarrow> Inl e
      | Inr s \<Rightarrow> Inr (on_connection s now_iso))"

text \<open>The handlers of \<^verbatim>\<open>cliente_conectado\<close> and \<^verbatim>\<open>obtener_historial\<close> in \<^verbatim>\<open>socket/events.js\<close>.\<close>

definition on_cliente_conectado ::
  "socket \<Rightarrow> NotificationHistory \<Rightarrow> string \<Rightarrow> emitted list" where
  "on_cliente_conectado socket notificationHistory now_iso =
     Emit ''conexion_confirmada''
       (ConexionConfirmada ConectadoExitosamente (userId socket) (userRol socket) now_iso)
     # (if userRol socket = ''administrador'' then
          [Emit ''historial_dashboard''
             (HistorialDashboard (getRecentNotifications notificationHistory None))]
        else [])"

definition on_obtener_historial :: "socket \<Rightarrow> NotificationHistory \<Rightarrow> emitted list" where
  "on_obtener_historial socket notificationHistory =
     (if userRol socket = ''administrador'' then
        [Emit ''historial_dashboard''
           (HistorialDashboard (getRecentNotifications notificationHistory None))]
      else [Emit ''error'' (ErrorPayload NoAutorizadoParaObtenerHistorial)])"

section \<open>Example values\<close>

text \<open>
  A small environment and database on which the theorems below are instantiated: a token
  is \<open>r\<close> followed by its session identifier, or \<open>i\<close> followed by anything for a
  token signed over the user alone; it belongs to user 7 and expires at the instant
  9000; the digest of a token is the token behind \<open>#\<close>.
\<close>

definition example_env :: auth_env where
  "example_env =
     \<lparr>jwt_decode = (\<lambda>tok. case tok of
          [] \<Rightarrow> None
        | c # sid \<Rightarrow>
            if c = CHR ''r'' then
              Some (\<lparr>decoded_id = 7, decoded_sessionId = Some sid\<rparr>, 9000)
            else if c = CHR ''i'' then
              Some (\<lparr>decoded_id = 7, decoded_sessionId = None\<rparr>, 9000)
            else None),
      hashToken = (\<lambda>tok. CHR ''#'' # tok),
      createRefreshToken = (\<lambda>uid sid now. CHR ''r'' # sid),
      createAccessToken = (\<lambda>uid now. ''access''),
      REFRESH_TOKEN_MAX_AGE_MS = 604800000\<rparr>"

text \<open>One active row of user 7, for the token \<open>rs1\<close>, which expires at the instant 5000.\<close>

definition example_session :: refresh_token_session where
  "example_session =
     \<lparr>refresh_token_session_id = 1, session_id = ''s1'', usuario_id = 7,
      token_hash = ''#rs1'', replaced_by_token_hash = None, revoked_at = None,
      expires_at = 5000, user_agent = None, ip_address = None\<rparr>"

definition example_db :: database where
  "example_db = \<lparr>Usuario = [], Rol = [], RefreshTokenSession = [example_session]\<rparr>"

text \<open>A request without a cookie and with an empty token in the body.\<close>

definition no_token_request :: request where
  "no_token_request =
     \<lparr>cookies_refreshToken = None, body_refreshToken = Some [],
      headers_user_agent = None, ip = None\<rparr>"

text \<open>The example database after two rotations, at the instants 100 and 200.\<close>

definition example_db_rotated :: database where
  "example_db_rotated =
     \<lparr>Usuario = [], Rol = [],
      RefreshTokenSession =
        [\<lparr>refresh_token_session_id = 1, session_id = ''s1'', usuario_id = 7,
          token_hash = ''#rs1'', replaced_by_token_hash = Some ''#rs2'',
          revoked_at = Some 100, expires_at = 5000, user_agent = None,
          ip_address = None\<rparr>,
         \<lparr>refresh_token_session_id = 2, session_id = ''s2'', usuario_id = 7,
          token_hash = ''#rs2'', replaced_by_token_hash = Some ''#rs3'',
          revoked_at = Some 200, expires_at = 604800100, user_agent = None,
          ip_address = None\<rparr>,
         \<lparr>refresh_token_session_id = 3, session_id = ''s3'', usuario_id = 7,
          token_hash = ''#rs3'', replaced_by_token_hash = None,
          revoked_at = None, expires_at = 604800200, user_agent = None,
          ip_address = None\<rparr>]\<rparr>"

text \<open>Notifications without a timestamp, and ten of them with the instants of their additions.\<close>

definition example_notification :: "nat \<Rightarrow> notification" where
  "example_notification k =
     \<lparr>ntype = ''nuevo_pedido'', message = string_of_nat k, data = [],
      timestamp = None, priority = Some ''high''\<rparr>"

definition ten_notifications :: "(notification \<times> string) list" where
  "ten_notifications =
     map (\<lambda>k. (example_notification k, ''t'' @ string_of_nat k))
       [0, 1, 2, 3, 4, 5, 6, 7, 8, 9]"

text \<open>An authenticated socket of user 42 with a given role, in the room of its own identifier.\<close>

definition example_socket :: "string \<Rightarrow> socket" where
  "example_socket role =
     \<lparr>handshake_auth_token = Some ''a'', userId = 42, userRol = role,
      userName = ''Ana'', rooms = {''socket-id''}\<rparr>"

text \<open>Two users with the password \<open>secret\<close>: the first must change it, the second need not.\<close>

definition example_login_env :: login_env where
  "example_login_env =
     \<lparr>bcrypt_compare = (\<lambda>password hash. hash = CHR ''$'' # password),
      sign_access = (\<lambda>uid now. ''access''),
      sign_refresh = (\<lambda>uid now. ''refresh'')\<rparr>"

definition example_users :: database where
  "example_users =
     \<lparr>Usuario =
        [\<lparr>usuario_pk = 1, nombre = ''Ana'', rol_id = 1, correo = ''ana@example.com'',
          contrasena = ''$secret'', must_change_password = True, deleted_at = None\<rparr>,
         \<lparr>usuario_pk = 2, nombre = ''Luis'', rol_id = 2, correo = ''luis@example.com'',
          contrasena = ''$secret'', must_change_password = False, deleted_at = None\<rparr>],
      Rol = [\<lparr>rol_pk = 1, nombre_rol = ''administrador''\<rparr>,
             \<lparr>rol_pk = 2, nombre_rol = ''mesero''\<rparr>],
      RefreshTokenSession = []\<rparr>"

section \<open>Lemmas on the session table\<close>

text \<open>The definitions that evaluate the example values.\<close>

lemmas example_defs =
  example_env_def example_session_def example_db_def cookie_request_def
  jwt_verify_def js_or_def truthy_def active_match_def wf_sessions_def

lemma findOne_None_iff: "findOne w rows = None \<longleftrightarrow> (\<forall>r\<in>set rows. \<not> w r)"
  by (auto simp: findOne_def find_None_iff)

lemma findOne_SomeD: "findOne w rows = Some r \<Longrightarrow> r \<in> set rows \<and> w r"
  by (auto simp: findOne_def find_Some_iff)

lemma map_update_where:
  "(\<And>r. g (f r) = g r) \<Longrightarrow> map g (update_where w f rows) = map g rows"
  by (simp add: update_where_def)

lemma set_update_where:
  "set (update_where w f rows) = {r \<in> set rows. \<not> w r} \<union> f ` {r \<in> set rows. w r}"
  by (auto simp: update_where_def)

lemma fold_max_ge: "(a::nat) \<le> fold max xs a"
  by (induction xs arbitrary: a) (auto intro: order_trans [OF max.cobounded2])

lemma fold_max_mem: "x \<in> set xs \<Longrightarrow> (x::nat) \<le> fold max xs a"
proof (induction xs arbitrary: a)
  case Nil
  then show ?case by simp
next
  case (Cons y ys)
  show ?case
  proof (cases "x = y")
    case True
    have "y \<le> max y a" by simp
    also have "\<dots> \<le> fold max ys (max y a)" by (rule fold_max_ge)
    finally show ?thesis using True by simp
  next
    case False
    with Cons show ?thesis by simp
  qed
qed

lemma next_id_fresh: "r \<in> set rows \<Longrightarrow> refresh_token_session_id r < next_id rows"
  using fold_max_mem [of "refresh_token_session_id r" "map refresh_token_session_id rows" 0]
  by (simp add: next_id_def less_Suc_eq_le)

lemma next_id_notin: "next_id rows \<notin> set (map refresh_token_session_id rows)"
  using next_id_fresh by fastforce

lemma next_id_cong:
  "map refresh_token_session_id rows' = map refresh_token_session_id rows \<Longrightarrow>
   next_id rows' = next_id rows"
  by (simp add: next_id_def)

lemma distinct_map_eqD:
  "distinct (map g rows) \<Longrightarrow> x \<in> set rows \<Longrightarrow> y \<in> set rows \<Longrightarrow> g x = g y \<Longrightarrow> x = y"
  by (auto simp: distinct_map dest: inj_onD)

lemma instance_update_eq:
  assumes "distinct (map refresh_token_session_id rows)" and "a \<in> set rows"
  shows "instance_update a f rows = map (\<lambda>r. if r = a then f a else r) rows"
  unfolding instance_update_def update_where_def
  using assms by (auto dest: distinct_map_eqD)


lemma refreshToken_reuse:
  assumes "js_or (cookies_refreshToken req) (body_refreshToken req) = Some tok" and "tok \<noteq> []"
    and "jwt_verify env tok now = Some decoded"
    and "findOne (active_match sessionId (decoded_id decoded)
                   (hashToken env tok) now) (RefreshTokenSession db) = None"
    and "decoded_sessionId decoded = Some sessionId"
  shows "refreshToken env db req now newSessionId =
           (db\<lparr>RefreshTokenSession :=
                 update_where (\<lambda>r. usuario_id r = decoded_id decoded \<and> revoked_at r = None)
                   (\<lambda>r. r\<lparr>revoked_at := Some now\<rparr>) (RefreshTokenSession db)\<rparr>,
            send 403 (Message RefreshTokenInvalidoOReutilizado) ClearRefreshCookie)"
  using assms by (simp add: refreshToken_def truthy_def Let_def)

lemma refreshToken_rotate:
  assumes "js_or (cookies_refreshToken req) (body_refreshToken req) = Some tok" and "tok \<noteq> []"
    and "jwt_verify env tok now = Some decoded"
    and "findOne (active_match sessionId (decoded_id decoded)
                   (hashToken env tok) now) (RefreshTokenSession db) = Some a"
    and "decoded_sessionId decoded = Some sessionId"
  shows "refreshToken env db req now newSessionId =
           (case rotate_transaction (RefreshTokenSession db) a now newSessionId
                   (hashToken env (createRefreshToken env (decoded_id decoded) newSessionId now))
                   (decoded_id decoded) (now + REFRESH_TOKEN_MAX_AGE_MS env)
                   (or_null (headers_user_agent req)) (or_null (ip req)) of
              None \<Rightarrow> (db, send 403 (Message RefreshTokenInvalidoOExpirado) ClearRefreshCookie)
            | Some rows' \<Rightarrow>
                (db\<lparr>RefreshTokenSession := rows'\<rparr>,
                 send 200 (AccessTokenBody (createAccessToken env (decoded_id decoded) now))
                   (SetRefreshCookie (createRefreshToken env (decoded_id decoded) newSessionId now))))"
  using assms by (simp add: refreshToken_def truthy_def Let_def)

text \<open>The table after a rotation whose insert succeeds.\<close>

lemma rotate_transaction_Some:
  assumes wf: "wf_sessions rows" and a: "a \<in> set rows"
    and fresh: "sid \<notin> session_id ` set rows" "th \<notin> token_hash ` set rows"
  shows "rotate_transaction rows a now sid th uid exp ua ipa =
           Some (map (\<lambda>r. if r = a then a\<lparr>revoked_at := Some now,
                                          replaced_by_token_hash := Some th\<rparr> else r) rows
                 @ [\<lparr>refresh_token_session_id = next_id rows, session_id = sid,
                     usuario_id = uid, token_hash = th, replaced_by_token_hash = None,
                     revoked_at = None, expires_at = exp, user_agent = ua,
                     ip_address = ipa\<rparr>])"
proof -
  let ?f = "\<lambda>r. r\<lparr>revoked_at := Some now, replaced_by_token_hash := Some th\<rparr>"
  let ?rows = "instance_update a ?f rows"
  have pk: "map refresh_token_session_id ?rows = map refresh_token_session_id rows"
    and sids: "map session_id ?rows = map session_id rows"
    and ths: "map token_hash ?rows = map token_hash rows"
    unfolding instance_update_def by (simp_all add: map_update_where)
  have eq: "?rows = map (\<lambda>r. if r = a then ?f a else r) rows"
    using wf a by (intro instance_update_eq) (simp_all add: wf_sessions_def)
  show ?thesis
    unfolding rotate_transaction_def create_session_def
    using fresh by (simp add: sids ths next_id_cong [OF pk] eq [symmetric])
qed

lemma rotate_transaction_cases:
  "rotate_transaction rows a now sid th uid exp ua ipa = None
     \<longleftrightarrow> sid \<in> session_id ` set rows \<or> th \<in> token_hash ` set rows"
proof -
  let ?f = "\<lambda>r. r\<lparr>revoked_at := Some now, replaced_by_token_hash := Some th\<rparr>"
  have "map session_id (instance_update a ?f rows) = map session_id rows"
    and "map token_hash (instance_update a ?f rows) = map token_hash rows"
    unfolding instance_update_def by (simp_all add: map_update_where)
  then have "set (map session_id (instance_update a ?f rows)) = session_id ` set rows"
    and "set (map token_hash (instance_update a ?f rows)) = token_hash ` set rows"
    by simp_all
  then show ?thesis
    unfolding rotate_transaction_def create_session_def by (simp del: set_map)
qed

lemma wf_update_where_revoke:
  "wf_sessions rows \<Longrightarrow> wf_sessions (update_where w (\<lambda>r. r\<lparr>revoked_at := Some now\<rparr>) rows)"
  by (simp add: wf_sessions_def map_update_where)

lemma wf_rotated:
  assumes wf: "wf_sessions rows" and a: "a \<in> set rows"
    and fresh: "sid \<notin> session_id ` set rows" "th \<notin> token_hash ` set rows"
  shows "wf_sessions (map (\<lambda>r. if r = a then a\<lparr>revoked_at := Some now,
                                          replaced_by_token_hash := Some th\<rparr> else r) rows
                 @ [\<lparr>refresh_token_session_id = next_id rows, session_id = sid,
                     usuario_id = uid, token_hash = th, replaced_by_token_hash = None,
                     revoked_at = None, expires_at = exp, user_agent = ua,
                     ip_address = ipa\<rparr>])"
proof -
  let ?m = "map (\<lambda>r. if r = a then a\<lparr>revoked_at := Some now,
                                          replaced_by_token_hash := Some th\<rparr> else r) rows"
  have pk: "map refresh_token_session_id ?m = map refresh_token_session_id rows"
    and sids: "map session_id ?m = map session_id rows"
    and ths: "map token_hash ?m = map token_hash rows"
    by (simp_all add: comp_def cong: map_cong)
  show ?thesis
    using wf fresh next_id_notin [of rows]
    unfolding wf_sessions_def map_append pk sids ths by simp
qed

section \<open>The branches of the refresh operation\<close>

text \<open>Every outcome of a refresh, as one case distinction.\<close>

lemma refreshToken_outcomes:
  obtains (unchanged) "fst (refreshToken env db req now sid) = db"
      "\<forall>t. cookie (snd (refreshToken env db req now sid)) \<noteq> SetRefreshCookie t"
    | (reuse) tok decoded sessionId where
      "js_or (cookies_refreshToken req) (body_refreshToken req) = Some tok" "tok \<noteq> []"
      "jwt_verify env tok now = Some decoded"
      "findOne (active_match sessionId (decoded_id decoded)
                 (hashToken env tok) now) (RefreshTokenSession db) = None"
      "decoded_sessionId decoded = Some sessionId"
    | (rotated) tok decoded a sessionId where
      "js_or (cookies_refreshToken req) (body_refreshToken req) = Some tok" "tok \<noteq> []"
      "jwt_verify env tok now = Some decoded"
      "findOne (active_match sessionId (decoded_id decoded)
                 (hashToken env tok) now) (RefreshTokenSession db) = Some a"
      "sid \<notin> session_id ` set (RefreshTokenSession db)"
      "hashToken env (createRefreshToken env (decoded_id decoded) sid now)
         \<notin> token_hash ` set (RefreshTokenSession db)"
      "decoded_sessionId decoded = Some sessionId"
proof (cases "truthy (js_or (cookies_refreshToken req) (body_refreshToken req))")
  case False
  then show ?thesis by (intro unchanged) (simp_all add: refreshToken_def send_def)
next
  case True
  then obtain tok where tok: "js_or (cookies_refreshToken req) (body_refreshToken req) = Some tok"
    "tok \<noteq> []"
    by (auto simp: truthy_def split: option.splits)
  show ?thesis
  proof (cases "jwt_verify env tok now")
    case None
    with tok show ?thesis
      by (intro unchanged) (simp_all add: refreshToken_def send_def truthy_def)
  next
    case (Some decoded)
    show ?thesis
    proof (cases "decoded_sessionId decoded")
      case None
      with tok Some show ?thesis
        by (intro unchanged) (simp_all add: refreshToken_def send_def truthy_def)
    next
      case sess: (Some sessionId)
      show ?thesis
      proof (cases "findOne (active_match sessionId (decoded_id decoded)
                   (hashToken env tok) now) (RefreshTokenSession db)")
        case None
        with tok Some sess show ?thesis by (intro reuse)
      next
        case found: (Some a)
        let ?th = "hashToken env (createRefreshToken env (decoded_id decoded) sid now)"
        show ?thesis
        proof (cases "sid \<in> session_id ` set (RefreshTokenSession db)
                      \<or> ?th \<in> token_hash ` set (RefreshTokenSession db)")
          case True
          then have "rotate_transaction (RefreshTokenSession db) a now sid ?th
                       (decoded_id decoded) (now + REFRESH_TOKEN_MAX_AGE_MS env)
                       (or_null (headers_user_agent req)) (or_null (ip req)) = None"
            by (simp only: rotate_transaction_cases)
          then show ?thesis
            by (intro unchanged)
               (simp_all add: refreshToken_rotate [OF tok Some found sess] send_def)
        next
          case False
          then have "sid \<notin> session_id ` set (RefreshTokenSession db)"
            and "?th \<notin> token_hash ` set (RefreshTokenSession db)"
            by blast+
          then show ?thesis by (rule rotated [OF tok Some found _ _ sess])
        qed
      qed
    qed
  qed
qed

lemma refreshToken_rotated:
  assumes "wf_sessions (RefreshTokenSession db)"
    and "js_or (cookies_refreshToken req) (body_refreshToken req) = Some tok" and "tok \<noteq> []"
    and "jwt_verify env tok now = Some decoded"
    and "findOne (active_match sessionId (decoded_id decoded)
                   (hashToken env tok) now) (RefreshTokenSession db) = Some a"
    and "sid \<notin> session_id ` set (RefreshTokenSession db)"
    and "hashToken env (createRefreshToken env (decoded_id decoded) sid now)
           \<notin> token_hash ` set (RefreshTokenSession db)"
    and "decoded_sessionId decoded = Some sessionId"
  shows "refreshToken env db req now sid =
      (db\<lparr>RefreshTokenSession :=
            map (\<lambda>r. if r = a then
                        a\<lparr>revoked_at := Some now,
                          replaced_by_token_hash := Some (hashToken env
                             (createRefreshToken env (decoded_id decoded) sid now))\<rparr>
                      else r) (RefreshTokenSession db)
            @ [\<lparr>refresh_token_session_id = next_id (RefreshTokenSession db),
                session_id = sid, usuario_id = decoded_id decoded,
                token_hash = hashToken env
                  (createRefreshToken env (decoded_id decoded) sid now),
                replaced_by_token_hash = None, revoked_at = None,
                expires_at = now + REFRESH_TOKEN_MAX_AGE_MS env,
                user_agent = or_null (headers_user_agent req),
                ip_address = or_null (ip req)\<rparr>]\<rparr>,
       send 200 (AccessTokenBody (createAccessToken env (decoded_id decoded) now))
         (SetRefreshCookie (createRefreshToken env (decoded_id decoded) sid now)))"
proof -
  have a: "a \<in> set (RefreshTokenSession db)"
    using assms(5) by (simp add: findOne_SomeD)
  show ?thesis
    by (simp add: refreshToken_rotate [OF assms(2-5) assms(8)]
          rotate_transaction_Some [OF assms(1) a assms(6,7)])
qed

lemma sessions_of_update:
  "RefreshTokenSession (db\<lparr>RefreshTokenSession := rows\<rparr>) = rows"
  by simp

lemma refreshToken_wf:
  assumes "wf_sessions (RefreshTokenSession db)"
  shows "wf_sessions (RefreshTokenSession (fst (refreshToken env db req now sid)))"
proof (cases rule: refreshToken_outcomes [of env db req now sid])
  case unchanged
  with assms show ?thesis by simp
next
  case (reuse tok decoded sessionId)
  show ?thesis
    unfolding refreshToken_reuse [OF reuse] fst_conv sessions_of_update
    by (rule wf_update_where_revoke [OF assms])
next
  case (rotated tok decoded a sessionId)
  have a: "a \<in> set (RefreshTokenSession db)"
    using findOne_SomeD [OF rotated(4)] by simp
  show ?thesis
    unfolding refreshToken_rotated [OF assms rotated] fst_conv sessions_of_update
    by (rule wf_rotated [OF assms a rotated(5,6)])
qed

lemma refreshToken_keeps_terminal:
  assumes "wf_sessions (RefreshTokenSession db)"
    and "r \<in> set (RefreshTokenSession db)" and "revoked_at r \<noteq> None"
  shows "r \<in> set (RefreshTokenSession (fst (refreshToken env db req now sid)))"
proof (cases rule: refreshToken_outcomes [of env db req now sid])
  case unchanged
  with assms show ?thesis by simp
next
  case (reuse tok decoded sessionId)
  show ?thesis
    unfolding refreshToken_reuse [OF reuse] fst_conv sessions_of_update
    using assms(2,3) by (auto simp: set_update_where)
next
  case (rotated tok decoded a sessionId)
  have "r \<noteq> a"
    using findOne_SomeD [OF rotated(4)] assms(3) by (auto simp: active_match_def)
  then have "r \<in> (\<lambda>x. if x = a then
                        a\<lparr>revoked_at := Some now,
                          replaced_by_token_hash := Some (hashToken env
                             (createRefreshToken env (decoded_id decoded) sid now))\<rparr>
                      else x) ` set (RefreshTokenSession db)"
    using assms(2) by (intro image_eqI [where x = r]) simp_all
  then show ?thesis
    unfolding refreshToken_rotated [OF assms(1) rotated] fst_conv sessions_of_update
    by simp
qed

section \<open>Rotation chains\<close>

lemma presented_cookie_request:
  "js_or (cookies_refreshToken (cookie_request tok)) (body_refreshToken (cookie_request tok))
     = Some t \<Longrightarrow> t = tok"
  by (simp add: cookie_request_def js_or_def split: if_splits)

text \<open>One step of the chain: the refresh it makes is a rotation.\<close>

lemma rotation_chain_Cons:
  assumes chain: "rotation_chain env db tok ((now, sid) # steps) = Some (db', toks)"
  obtains decoded a toks1 sessionId where
    "js_or (cookies_refreshToken (cookie_request tok)) (body_refreshToken (cookie_request tok))
       = Some tok"
    "tok \<noteq> []"
    "jwt_verify env tok now = Some decoded"
    "findOne (active_match sessionId (decoded_id decoded)
               (hashToken env tok) now) (RefreshTokenSession db) = Some a"
    "sid \<notin> session_id ` set (RefreshTokenSession db)"
    "hashToken env (createRefreshToken env (decoded_id decoded) sid now)
       \<notin> token_hash ` set (RefreshTokenSession db)"
    "rotation_chain env (fst (refreshToken env db (cookie_request tok) now sid))
       (createRefreshToken env (decoded_id decoded) sid now) steps = Some (db', toks1)"
    "toks = tok # toks1"
    "decoded_sessionId decoded = Some sessionId"
proof (cases rule: refreshToken_outcomes [of env db "cookie_request tok" now sid])
  case unchanged
  then have False
    using chain by (auto split: prod.splits cookie_op.splits)
  then show ?thesis ..
next
  case (reuse t decoded sessionId)
  then have False
    using chain by (simp add: refreshToken_reuse send_def)
  then show ?thesis ..
next
  case (rotated t decoded a sessionId)
  have t: "t = tok" using rotated(1) by (rule presented_cookie_request)
  let ?tok1 = "createRefreshToken env (decoded_id decoded) sid now"
  let ?th = "hashToken env ?tok1"
  obtain rows' where rows':
    "rotate_transaction (RefreshTokenSession db) a now sid ?th (decoded_id decoded)
       (now + REFRESH_TOKEN_MAX_AGE_MS env)
       (or_null (headers_user_agent (cookie_request tok))) (or_null (ip (cookie_request tok)))
     = Some rows'"
    using rotated(5,6) rotate_transaction_cases
      [of "RefreshTokenSession db" a now sid ?th "decoded_id decoded"
          "now + REFRESH_TOKEN_MAX_AGE_MS env"
          "or_null (headers_user_agent (cookie_request tok))"
          "or_null (ip (cookie_request tok))"]
    by (cases "rotate_transaction (RefreshTokenSession db) a now sid ?th (decoded_id decoded)
       (now + REFRESH_TOKEN_MAX_AGE_MS env)
       (or_null (headers_user_agent (cookie_request tok))) (or_null (ip (cookie_request tok)))")
       auto
  have res: "refreshToken env db (cookie_request tok) now sid =
      (db\<lparr>RefreshTokenSession := rows'\<rparr>,
       send 200 (AccessTokenBody (createAccessToken env (decoded_id decoded) now))
         (SetRefreshCookie ?tok1))"
    using refreshToken_rotate [OF rotated(1-4) rotated(7), of sid] rows' by simp
  obtain toks1 where
    "rotation_chain env (db\<lparr>RefreshTokenSession := rows'\<rparr>) ?tok1 steps = Some (db', toks1)"
    "toks = tok # toks1"
    using chain unfolding rotation_chain.simps res
    by (auto simp: send_def split: option.splits)
  then show ?thesis
    using rotated t res by (intro that [where a = a and sessionId = sessionId]) simp_all
qed

lemma rotation_chain_keeps_terminal:
  assumes "rotation_chain env db tok steps = Some (db', toks)"
    and "wf_sessions (RefreshTokenSession db)"
    and "r \<in> set (RefreshTokenSession db)" and "revoked_at r \<noteq> None"
  shows "r \<in> set (RefreshTokenSession db')"
  using assms
proof (induction steps arbitrary: db tok toks)
  case Nil
  then show ?case by simp
next
  case (Cons step steps)
  obtain now sid where step: "step = (now, sid)" by (cases step)
  show ?case
  proof (cases rule: rotation_chain_Cons [OF Cons.prems(1) [unfolded step]])
    case (1 decoded a toks1 sessionId)
    show ?thesis
      using 1(7)
    proof (rule Cons.IH)
      show "wf_sessions
              (RefreshTokenSession (fst (refreshToken env db (cookie_request tok) now sid)))"
        by (rule refreshToken_wf [OF Cons.prems(2)])
      show "r \<in> set (RefreshTokenSession
                         (fst (refreshToken env db (cookie_request tok) now sid)))"
        by (rule refreshToken_keeps_terminal [OF Cons.prems(2-4)])
      show "revoked_at r \<noteq> None" by fact
    qed
  qed
qed

lemma rotation_chain_threads:
  assumes "rotation_chain env db tok steps = Some (db', toks)"
    and "wf_sessions (RefreshTokenSession db)"
    and "\<exists>r \<in> set (RefreshTokenSession db).
           token_hash r = hashToken env tok \<and> revoked_at r = None"
  shows "wf_sessions (RefreshTokenSession db')
       \<and> length toks = Suc (length steps) \<and> hd toks = tok
       \<and> (\<forall>i < length steps. \<exists>r \<in> set (RefreshTokenSession db').
              token_hash r = hashToken env (toks ! i) \<and> revoked_at r \<noteq> None
              \<and> replaced_by_token_hash r = Some (hashToken env (toks ! Suc i)))
       \<and> (\<exists>r \<in> set (RefreshTokenSession db').
              token_hash r = hashToken env (last toks) \<and> revoked_at r = None)"
  using assms
proof (induction steps arbitrary: db tok toks)
  case Nil
  then show ?case by auto
next
  case (Cons step steps)
  obtain now sid where step: "step = (now, sid)" by (cases step)
  show ?case
  proof (cases rule: rotation_chain_Cons [OF Cons.prems(1) [unfolded step]])
    case (1 decoded a toks1 sessionId)
    let ?tok1 = "createRefreshToken env (decoded_id decoded) sid now"
    let ?a' = "a\<lparr>revoked_at := Some now,
                  replaced_by_token_hash := Some (hashToken env ?tok1)\<rparr>"
    let ?new = "\<lparr>refresh_token_session_id = next_id (RefreshTokenSession db),
                session_id = sid, usuario_id = decoded_id decoded,
                token_hash = hashToken env ?tok1,
                replaced_by_token_hash = None, revoked_at = None,
                expires_at = now + REFRESH_TOKEN_MAX_AGE_MS env,
                user_agent = or_null (headers_user_agent (cookie_request tok)),
                ip_address = or_null (ip (cookie_request tok))\<rparr>"
    let ?db1 = "fst (refreshToken env db (cookie_request tok) now sid)"
    have a: "a \<in> set (RefreshTokenSession db)" "token_hash a = hashToken env tok"
      using findOne_SomeD [OF 1(4)] by (simp_all add: active_match_def)
    have rows1: "RefreshTokenSession ?db1 =
        map (\<lambda>r. if r = a then ?a' else r) (RefreshTokenSession db) @ [?new]"
      unfolding refreshToken_rotated [OF Cons.prems(2) 1(1-6) 1(9)] fst_conv sessions_of_update ..
    have wf1: "wf_sessions (RefreshTokenSession ?db1)"
      by (rule refreshToken_wf [OF Cons.prems(2)])
    have "?a' \<in> (\<lambda>r. if r = a then ?a' else r) ` set (RefreshTokenSession db)"
      using a(1) by (intro image_eqI [where x = a]) simp_all
    then have a'1: "?a' \<in> set (RefreshTokenSession ?db1)"
      unfolding rows1 by simp
    have a': "?a' \<in> set (RefreshTokenSession db')"
      by (rule rotation_chain_keeps_terminal [OF 1(7) wf1 a'1]) simp
    have head1: "\<exists>r \<in> set (RefreshTokenSession ?db1).
           token_hash r = hashToken env ?tok1 \<and> revoked_at r = None"
      unfolding rows1 by (intro bexI [where x = ?new]) simp_all
    note IH = Cons.IH [OF 1(7) wf1 head1]
    from IH have len1: "length toks1 = Suc (length steps)" and hd1: "hd toks1 = ?tok1"
      by simp_all
    then have ne1: "toks1 \<noteq> []" by auto
    have first: "\<exists>r \<in> set (RefreshTokenSession db').
              token_hash r = hashToken env (toks ! 0) \<and> revoked_at r \<noteq> None
              \<and> replaced_by_token_hash r = Some (hashToken env (toks ! Suc 0))"
      using a' a(2) hd1 ne1 unfolding 1(8)
      by (intro bexI [where x = ?a']) (simp_all add: hd_conv_nth)
    have rest: "\<exists>r \<in> set (RefreshTokenSession db').
              token_hash r = hashToken env (toks ! Suc j) \<and> revoked_at r \<noteq> None
              \<and> replaced_by_token_hash r = Some (hashToken env (toks ! Suc (Suc j)))"
      if "j < length steps" for j
      using IH that unfolding 1(8) by simp
    have thread: "\<forall>i < length (step # steps). \<exists>r \<in> set (RefreshTokenSession db').
              token_hash r = hashToken env (toks ! i) \<and> revoked_at r \<noteq> None
              \<and> replaced_by_token_hash r = Some (hashToken env (toks ! Suc i))"
    proof (intro allI impI)
      fix i assume "i < length (step # steps)"
      then consider "i = 0" | j where "i = Suc j" "j < length steps"
        by (cases i) auto
      then show "\<exists>r \<in> set (RefreshTokenSession db').
              token_hash r = hashToken env (toks ! i) \<and> revoked_at r \<noteq> None
              \<and> replaced_by_token_hash r = Some (hashToken env (toks ! Suc i))"
        using first rest by cases simp_all
    qed
    have last: "\<exists>r \<in> set (RefreshTokenSession db').
              token_hash r = hashToken env (last toks) \<and> revoked_at r = None"
      using IH ne1 unfolding 1(8) by simp
    show ?thesis
      using IH len1 thread last unfolding 1(8) by simp
  qed
qed

text \<open>In a table with unique hashes, a chain whose earlier rows are terminal and whose
  last row is active has exactly one active row.\<close>

lemma filter_unique_key:
  assumes "distinct (map g rows)" and "r \<in> set rows" and "P r"
  shows "length (filter (\<lambda>x. g x = g r \<and> P x) rows) = 1"
  using assms
proof (induction rows)
  case Nil
  then show ?case by simp
next
  case (Cons x xs)
  show ?case
  proof (cases "x = r")
    case True
    have "g r \<notin> g ` set xs"
      using Cons.prems(1) True by simp
    then have "\<forall>y \<in> set xs. g y \<noteq> g r"
      by (metis imageI)
    then have "filter (\<lambda>y. g y = g r \<and> P y) xs = []"
      by (simp add: filter_empty_conv)
    then show ?thesis using True Cons.prems(3) by simp
  next
    case False
    then have "r \<in> set xs" using Cons.prems(2) by simp
    moreover then have "g x \<noteq> g r" using Cons.prems(1) by auto
    ultimately show ?thesis using Cons by simp
  qed
qed

lemma one_active_in_chain:
  assumes dist: "distinct (map token_hash rows)"
    and ne: "toks \<noteq> []"
    and prior: "\<forall>i < length toks - 1. \<exists>r \<in> set rows.
                 token_hash r = h (toks ! i) \<and> revoked_at r \<noteq> None"
    and act: "\<exists>r \<in> set rows. token_hash r = h (last toks) \<and> revoked_at r = None"
  shows "length (filter (\<lambda>r. token_hash r \<in> h ` set toks \<and> revoked_at r = None) rows) = 1"
proof -
  obtain l where l: "l \<in> set rows" "token_hash l = h (last toks)" "revoked_at l = None"
    using act by blast
  have "(token_hash r \<in> h ` set toks \<and> revoked_at r = None)
          = (token_hash r = token_hash l \<and> revoked_at r = None)"
    if r: "r \<in> set rows" for r
  proof (cases "revoked_at r = None")
    case False
    then show ?thesis by auto
  next
    case True
    have "token_hash r = h (last toks)" if "token_hash r \<in> h ` set toks"
    proof -
      from that obtain i where i: "i < length toks" "token_hash r = h (toks ! i)"
        by (auto simp: in_set_conv_nth)
      show ?thesis
      proof (cases "i < length toks - 1")
        case True
        then obtain r' where r': "r' \<in> set rows" "token_hash r' = h (toks ! i)"
          "revoked_at r' \<noteq> None"
          using prior by blast
        then have "r' = r"
          using distinct_map_eqD [OF dist r'(1) r] i(2) by simp
        with r'(3) \<open>revoked_at r = None\<close> show ?thesis by simp
      next
        case False
        then have "i = length toks - 1" using i(1) by simp
        then show ?thesis using i(2) ne by (simp add: last_conv_nth)
      qed
    qed
    moreover have "h (last toks) \<in> h ` set toks" using ne by simp
    ultimately show ?thesis using l(2) True by auto
  qed
  then have "filter (\<lambda>r. token_hash r \<in> h ` set toks \<and> revoked_at r = None) rows
           = filter (\<lambda>r. token_hash r = token_hash l \<and> revoked_at r = None) rows"
    by (intro filter_cong) simp_all
  then show ?thesis
    using filter_unique_key [OF dist l(1), of "\<lambda>r. revoked_at r = None"] l(3) by simp
qed

lemma update_where_revoked:
  "r \<in> set (update_where (\<lambda>r. P r \<and> revoked_at r = None) (\<lambda>r. r\<lparr>revoked_at := Some now\<rparr>) rows)
   \<Longrightarrow> P r \<Longrightarrow> revoked_at r \<noteq> None"
proof -
  assume r: "r \<in> set (update_where (\<lambda>r. P r \<and> revoked_at r = None)
                        (\<lambda>r. r\<lparr>revoked_at := Some now\<rparr>) rows)" and "P r"
  then show ?thesis by (auto simp: set_update_where)
qed

section \<open>Reuse detection\<close>

text \<open>
  Claim C1, as amended. A refresh whose token verifies and carries a session identifier,
  while no active row matches that identifier, the user and the digest of the token,
  revokes every active row of that user, clears the refresh cookie and answers 403. In
  particular, when such a token verifies at two presentations in sequence, on a table
  that respects its unique columns and with a first insert that does not collide, the
  second presentation answers 403 with the cookie cleared and leaves the user without an
  active row.

  The claim as first stated speaks of every token that verifies. It fails for a token
  signed over the user alone: the lookup throws, the handler's \<^verbatim>\<open>catch\<close> answers, and
  no row is revoked; the example after the theorem shows it.
\<close>

theorem C1_reuse_revokes_all_sessions:
  assumes tok: "js_or (cookies_refreshToken req) (body_refreshToken req) = Some tok" "tok \<noteq> []"
    and ver: "jwt_verify env tok now = Some decoded"
    and sess: "decoded_sessionId decoded = Some sessionId"
  shows "((\<forall>r \<in> set (RefreshTokenSession db).
             \<not> active_match sessionId (decoded_id decoded)
                  (hashToken env tok) now r) \<longrightarrow>
            refreshToken env db req now newSessionId =
              (db\<lparr>RefreshTokenSession :=
                    map (\<lambda>r. if usuario_id r = decoded_id decoded \<and> revoked_at r = None
                              then r\<lparr>revoked_at := Some now\<rparr> else r)
                        (RefreshTokenSession db)\<rparr>,
               \<lparr>status = 403, body = Message RefreshTokenInvalidoOReutilizado,
                cookie = ClearRefreshCookie\<rparr>)
            \<and> (\<forall>r \<in> set (RefreshTokenSession
                             (fst (refreshToken env db req now newSessionId))).
                  usuario_id r = decoded_id decoded \<longrightarrow> revoked_at r \<noteq> None))
       \<and> (wf_sessions (RefreshTokenSession db)
            \<and> jwt_verify env tok now' = Some decoded
            \<and> newSessionId \<notin> session_id ` set (RefreshTokenSession db)
            \<and> hashToken env (createRefreshToken env (decoded_id decoded) newSessionId now)
                 \<notin> token_hash ` set (RefreshTokenSession db) \<longrightarrow>
            snd (refreshToken env (fst (refreshToken env db req now newSessionId))
                   req now' newSessionId') =
              \<lparr>status = 403, body = Message RefreshTokenInvalidoOReutilizado,
               cookie = ClearRefreshCookie\<rparr>
            \<and> (\<forall>r \<in> set (RefreshTokenSession
                   (fst (refreshToken env (fst (refreshToken env db req now newSessionId))
                           req now' newSessionId'))).
                  usuario_id r = decoded_id decoded \<longrightarrow> revoked_at r \<noteq> None))"
proof (intro conjI impI)
  let ?uid = "decoded_id decoded" and ?sid = sessionId
  let ?h = "hashToken env tok"
  let ?revoke = "\<lambda>t. update_where (\<lambda>r. usuario_id r = ?uid \<and> revoked_at r = None)
                       (\<lambda>r. r\<lparr>revoked_at := Some t\<rparr>)"
  {
    assume "\<forall>r \<in> set (RefreshTokenSession db). \<not> active_match ?sid ?uid ?h now r"
    then have none: "findOne (active_match ?sid ?uid ?h now) (RefreshTokenSession db) = None"
      by (simp add: findOne_None_iff)
    note res = refreshToken_reuse [OF tok ver none sess, of newSessionId]
    show "refreshToken env db req now newSessionId =
              (db\<lparr>RefreshTokenSession :=
                    map (\<lambda>r. if usuario_id r = ?uid \<and> revoked_at r = None
                              then r\<lparr>revoked_at := Some now\<rparr> else r)
                        (RefreshTokenSession db)\<rparr>,
               \<lparr>status = 403, body = Message RefreshTokenInvalidoOReutilizado,
                cookie = ClearRefreshCookie\<rparr>)"
      unfolding res by (simp add: update_where_def send_def)
    show "\<forall>r \<in> set (RefreshTokenSession (fst (refreshToken env db req now newSessionId))).
            usuario_id r = ?uid \<longrightarrow> revoked_at r \<noteq> None"
      unfolding res fst_conv sessions_of_update
      by (intro ballI impI) (rule update_where_revoked)
  }
  assume second: "wf_sessions (RefreshTokenSession db)
            \<and> jwt_verify env tok now' = Some decoded
            \<and> newSessionId \<notin> session_id ` set (RefreshTokenSession db)
            \<and> hashToken env (createRefreshToken env ?uid newSessionId now)
                 \<notin> token_hash ` set (RefreshTokenSession db)"
  then have wf: "wf_sessions (RefreshTokenSession db)"
    and ver': "jwt_verify env tok now' = Some decoded"
    and fresh: "newSessionId \<notin> session_id ` set (RefreshTokenSession db)"
      "hashToken env (createRefreshToken env ?uid newSessionId now)
         \<notin> token_hash ` set (RefreshTokenSession db)"
    by simp_all
  let ?db1 = "fst (refreshToken env db req now newSessionId)"
  have no_match: "\<not> active_match ?sid ?uid ?h now' r" if r: "r \<in> set (RefreshTokenSession ?db1)" for r
  proof (cases "findOne (active_match ?sid ?uid ?h now) (RefreshTokenSession db)")
    case None
    have "r \<in> set (?revoke now (RefreshTokenSession db))"
      using r unfolding refreshToken_reuse [OF tok ver None sess] fst_conv sessions_of_update .
    then have "usuario_id r = ?uid \<Longrightarrow> revoked_at r \<noteq> None"
      by (rule update_where_revoked)
    then show ?thesis by (auto simp: active_match_def)
  next
    case (Some a)
    have a: "a \<in> set (RefreshTokenSession db)" "session_id a = ?sid"
      using findOne_SomeD [OF Some] by (simp_all add: active_match_def)
    let ?tok1 = "createRefreshToken env ?uid newSessionId now"
    let ?a' = "a\<lparr>revoked_at := Some now,
                  replaced_by_token_hash := Some (hashToken env ?tok1)\<rparr>"
    have "r \<in> set (map (\<lambda>r. if r = a then ?a' else r) (RefreshTokenSession db))
            \<or> session_id r = newSessionId"
      using r unfolding refreshToken_rotated [OF wf tok ver Some fresh sess] fst_conv
        sessions_of_update
      by auto
    then consider "r = ?a'" | "r \<in> set (RefreshTokenSession db)" "r \<noteq> a"
      | "session_id r = newSessionId"
      by auto
    then show ?thesis
    proof cases
      case 1
      then show ?thesis by (simp add: active_match_def)
    next
      case 2
      have "session_id r \<noteq> session_id a"
        using distinct_map_eqD [of session_id "RefreshTokenSession db" r a] wf 2 a(1)
        by (auto simp: wf_sessions_def)
      then show ?thesis using a(2) by (simp add: active_match_def)
    next
      case 3
      have "session_id a \<noteq> newSessionId" using fresh(1) a(1) by auto
      then show ?thesis using 3 a(2) by (simp add: active_match_def)
    qed
  qed
  then have none': "findOne (active_match ?sid ?uid ?h now') (RefreshTokenSession ?db1) = None"
    by (simp add: findOne_None_iff)
  note res' = refreshToken_reuse [OF tok ver' none' sess, of newSessionId']
  show "snd (refreshToken env ?db1 req now' newSessionId') =
              \<lparr>status = 403, body = Message RefreshTokenInvalidoOReutilizado,
               cookie = ClearRefreshCookie\<rparr>"
    unfolding res' by (simp add: send_def)
  show "\<forall>r \<in> set (RefreshTokenSession (fst (refreshToken env ?db1 req now' newSessionId'))).
                  usuario_id r = ?uid \<longrightarrow> revoked_at r \<noteq> None"
    unfolding res' fst_conv sessions_of_update
    by (intro ballI impI) (rule update_where_revoked)
qed

theorem C1_reuse_revokes_all_sessions_witness:
  "js_or (cookies_refreshToken (cookie_request ''rs1''))
         (body_refreshToken (cookie_request ''rs1'')) = Some ''rs1''
   \<and> jwt_verify example_env ''rs1'' 100 = Some \<lparr>decoded_id = 7, decoded_sessionId = Some ''s1''\<rparr>
   \<and> jwt_verify example_env ''rs1'' 200 = Some \<lparr>decoded_id = 7, decoded_sessionId = Some ''s1''\<rparr>
   \<and> wf_sessions (RefreshTokenSession example_db)
   \<and> status (snd (refreshToken example_env
         (fst (refreshToken example_env example_db (cookie_request ''rs1'') 100 ''s2''))
         (cookie_request ''rs1'') 200 ''s3'')) = 403
   \<and> status (snd (refreshToken example_env example_db (cookie_request ''rs1'') 5000 ''s2''))
       = 403
   \<and> map revoked_at (RefreshTokenSession
         (fst (refreshToken example_env example_db (cookie_request ''rs1'') 5000 ''s2'')))
       = [Some 5000]"
proof -
  have tok: "js_or (cookies_refreshToken (cookie_request ''rs1''))
         (body_refreshToken (cookie_request ''rs1'')) = Some ''rs1''" "''rs1'' \<noteq> []"
    by (simp_all add: example_defs)
  have ver: "jwt_verify example_env ''rs1'' 100 = Some \<lparr>decoded_id = 7, decoded_sessionId = Some ''s1''\<rparr>"
    and ver': "jwt_verify example_env ''rs1'' 200 = Some \<lparr>decoded_id = 7, decoded_sessionId = Some ''s1''\<rparr>"
    and ver3: "jwt_verify example_env ''rs1'' 5000 = Some \<lparr>decoded_id = 7, decoded_sessionId = Some ''s1''\<rparr>"
    by (simp_all add: example_defs)
  have sess: "decoded_sessionId \<lparr>decoded_id = 7, decoded_sessionId = Some ''s1''\<rparr>
                = Some ''s1''"
    by simp
  have wf: "wf_sessions (RefreshTokenSession example_db)"
    by (simp add: example_defs)
  have fresh: "''s2'' \<notin> session_id ` set (RefreshTokenSession example_db)"
    "hashToken example_env (createRefreshToken example_env 7 ''s2'' 100)
       \<notin> token_hash ` set (RefreshTokenSession example_db)"
    by (simp_all add: example_defs)
  have expired: "\<forall>r \<in> set (RefreshTokenSession example_db).
      \<not> active_match ''s1'' 7 (hashToken example_env ''rs1'') 5000 r"
    by (simp add: example_defs)
  from C1_reuse_revokes_all_sessions [OF tok ver sess, where db = example_db and now' = 200
      and newSessionId = "''s2''" and newSessionId' = "''s3''"]
    ver' wf fresh
  have twice: "status (snd (refreshToken example_env
         (fst (refreshToken example_env example_db (cookie_request ''rs1'') 100 ''s2''))
         (cookie_request ''rs1'') 200 ''s3'')) = 403"
    by simp
  from C1_reuse_revokes_all_sessions [OF tok ver3 sess, where db = example_db and now' = 200
      and newSessionId = "''s2''" and newSessionId' = "''s3''"] expired
  have once: "refreshToken example_env example_db (cookie_request ''rs1'') 5000 ''s2'' =
      (example_db\<lparr>RefreshTokenSession :=
         map (\<lambda>r. if usuario_id r = 7 \<and> revoked_at r = None
                   then r\<lparr>revoked_at := Some 5000\<rparr> else r)
             (RefreshTokenSession example_db)\<rparr>,
       \<lparr>status = 403, body = Message RefreshTokenInvalidoOReutilizado,
        cookie = ClearRefreshCookie\<rparr>)"
    by simp
  show ?thesis
    using tok(1) ver ver' wf twice unfolding once
    by (simp add: example_db_def example_session_def)
qed

text \<open>
  A token of user 7 without a session identifier verifies, and no row can match it. At
  the first presentation and at the second the refresh answers 403 with the message of
  the \<^verbatim>\<open>catch\<close> and returns the database as it was, with the row of user 7 still
  active.
\<close>

theorem C1_reuse_revokes_all_sessions_counterexample:
  "js_or (cookies_refreshToken (cookie_request ''i7''))
         (body_refreshToken (cookie_request ''i7'')) = Some ''i7''
   \<and> jwt_verify example_env ''i7'' 100 = Some \<lparr>decoded_id = 7, decoded_sessionId = None\<rparr>
   \<and> jwt_verify example_env ''i7'' 200 = Some \<lparr>decoded_id = 7, decoded_sessionId = None\<rparr>
   \<and> map usuario_id (RefreshTokenSession example_db) = [7]
   \<and> map revoked_at (RefreshTokenSession example_db) = [None]
   \<and> refreshToken example_env example_db (cookie_request ''i7'') 100 ''s2'' =
       (example_db, \<lparr>status = 403, body = Message RefreshTokenInvalidoOExpirado,
                     cookie = ClearRefreshCookie\<rparr>)
   \<and> refreshToken example_env
         (fst (refreshToken example_env example_db (cookie_request ''i7'') 100 ''s2''))
         (cookie_request ''i7'') 200 ''s3'' =
       (example_db, \<lparr>status = 403, body = Message RefreshTokenInvalidoOExpirado,
                     cookie = ClearRefreshCookie\<rparr>)"
proof -
  have first: "refreshToken example_env example_db (cookie_request ''i7'') 100 ''s2'' =
       (example_db, \<lparr>status = 403, body = Message RefreshTokenInvalidoOExpirado,
                     cookie = ClearRefreshCookie\<rparr>)"
    by (simp add: refreshToken_def example_env_def cookie_request_def jwt_verify_def
          js_or_def truthy_def send_def Let_def)
  have second: "refreshToken example_env example_db (cookie_request ''i7'') 200 ''s3'' =
       (example_db, \<lparr>status = 403, body = Message RefreshTokenInvalidoOExpirado,
                     cookie = ClearRefreshCookie\<rparr>)"
    by (simp add: refreshToken_def example_env_def cookie_request_def jwt_verify_def
          js_or_def truthy_def send_def Let_def)
  have rows: "map usuario_id (RefreshTokenSession example_db) = [7]"
    "map revoked_at (RefreshTokenSession example_db) = [None]"
    by (simp_all add: example_db_def example_session_def)
  have tok: "js_or (cookies_refreshToken (cookie_request ''i7''))
         (body_refreshToken (cookie_request ''i7'')) = Some ''i7''"
    and ver: "jwt_verify example_env ''i7'' 100
                = Some \<lparr>decoded_id = 7, decoded_sessionId = None\<rparr>"
      "jwt_verify example_env ''i7'' 200
                = Some \<lparr>decoded_id = 7, decoded_sessionId = None\<rparr>"
    by (simp_all add: example_defs)
  show ?thesis
    unfolding first fst_conv second by (intro conjI tok ver rows refl)
qed

section \<open>A refresh without a token\<close>

text \<open>
  Claim C5. A refresh request that presents no refresh token, neither in the cookie nor in
  the body (an empty string counts as absent), is answered with 401 and leaves the
  database as it was.
\<close>

theorem C5_refresh_without_token:
  assumes "\<not> truthy (cookies_refreshToken req)" and "\<not> truthy (body_refreshToken req)"
  shows "refreshToken env db req now newSessionId =
           (db, \<lparr>status = 401, body = Message RefreshTokenEsRequerido,
                 cookie = CookieUntouched\<rparr>)"
  using assms by (simp add: refreshToken_def js_or_def send_def)

theorem C5_refresh_without_token_witness:
  "refreshToken example_env example_db no_token_request 100 ''s2'' =
     (example_db, \<lparr>status = 401, body = Message RefreshTokenEsRequerido,
                   cookie = CookieUntouched\<rparr>)"
proof -
  have "\<not> truthy (cookies_refreshToken no_token_request)"
    and "\<not> truthy (body_refreshToken no_token_request)"
    by (simp_all add: no_token_request_def truthy_def)
  then show ?thesis by (rule C5_refresh_without_token)
qed

section \<open>A token that does not verify\<close>

text \<open>
  Claim C9. When the presented token fails verification (it does not decode, or its
  expiry has been reached), the refresh answers 403, clears the cookie and leaves every
  session row as it was. A refresh changes the session table only for a token that
  verifies, and the reuse answer with its revocation is given only for a token that
  verifies, carries a session identifier and matches no active row.
\<close>

theorem C9_unverified_token_changes_nothing:
  assumes "js_or (cookies_refreshToken req) (body_refreshToken req) = Some tok"
    and "tok \<noteq> []"
  shows "(jwt_verify env tok now = None \<longrightarrow>
            refreshToken env db req now newSessionId =
              (db, \<lparr>status = 403, body = Message RefreshTokenInvalidoOExpirado,
                    cookie = ClearRefreshCookie\<rparr>))
       \<and> (RefreshTokenSession (fst (refreshToken env db req now newSessionId))
              \<noteq> RefreshTokenSession db \<longrightarrow>
            (\<exists>decoded. jwt_verify env tok now = Some decoded))
       \<and> (body (snd (refreshToken env db req now newSessionId))
              = Message RefreshTokenInvalidoOReutilizado \<longrightarrow>
            (\<exists>decoded sessionId. jwt_verify env tok now = Some decoded
               \<and> decoded_sessionId decoded = Some sessionId
               \<and> (\<forall>r \<in> set (RefreshTokenSession db).
                     \<not> active_match sessionId (decoded_id decoded)
                          (hashToken env tok) now r)))"
proof (intro conjI impI)
  assume "jwt_verify env tok now = None"
  then show "refreshToken env db req now newSessionId =
              (db, \<lparr>status = 403, body = Message RefreshTokenInvalidoOExpirado,
                    cookie = ClearRefreshCookie\<rparr>)"
    using assms by (simp add: refreshToken_def send_def truthy_def)
next
  assume "RefreshTokenSession (fst (refreshToken env db req now newSessionId))
              \<noteq> RefreshTokenSession db"
  then show "\<exists>decoded. jwt_verify env tok now = Some decoded"
    using assms by (cases "jwt_verify env tok now") (simp_all add: refreshToken_def truthy_def)
next
  assume reused: "body (snd (refreshToken env db req now newSessionId))
              = Message RefreshTokenInvalidoOReutilizado"
  show "\<exists>decoded sessionId. jwt_verify env tok now = Some decoded
               \<and> decoded_sessionId decoded = Some sessionId
               \<and> (\<forall>r \<in> set (RefreshTokenSession db).
                     \<not> active_match sessionId (decoded_id decoded)
                          (hashToken env tok) now r)"
  proof (cases "jwt_verify env tok now")
    case None
    then show ?thesis
      using assms reused by (simp add: refreshToken_def send_def truthy_def)
  next
    case (Some decoded)
    show ?thesis
    proof (cases "decoded_sessionId decoded")
      case None
      then show ?thesis
        using assms Some reused by (simp add: refreshToken_def send_def truthy_def)
    next
      case sess: (Some sessionId)
      show ?thesis
      proof (cases "findOne (active_match sessionId (decoded_id decoded)
                     (hashToken env tok) now) (RefreshTokenSession db)")
        case None
        then show ?thesis using Some sess by (auto simp: findOne_None_iff)
      next
        case found: (Some a)
        then show ?thesis
          using reused
          by (simp add: refreshToken_rotate [OF assms Some found sess] send_def
                   split: option.splits)
      qed
    qed
  qed
qed

theorem C9_unverified_token_changes_nothing_witness:
  "jwt_verify example_env ''xs1'' 100 = None
   \<and> refreshToken example_env example_db (cookie_request ''xs1'') 100 ''s2'' =
       (example_db, \<lparr>status = 403, body = Message RefreshTokenInvalidoOExpirado,
                     cookie = ClearRefreshCookie\<rparr>)
   \<and> jwt_verify example_env ''rs1'' 9000 = None
   \<and> refreshToken example_env example_db (cookie_request ''rs1'') 9000 ''s2'' =
       (example_db, \<lparr>status = 403, body = Message RefreshTokenInvalidoOExpirado,
                     cookie = ClearRefreshCookie\<rparr>)"
proof -
  have forged: "js_or (cookies_refreshToken (cookie_request ''xs1''))
           (body_refreshToken (cookie_request ''xs1'')) = Some ''xs1''" "''xs1'' \<noteq> []"
    and expired: "js_or (cookies_refreshToken (cookie_request ''rs1''))
           (body_refreshToken (cookie_request ''rs1'')) = Some ''rs1''" "''rs1'' \<noteq> []"
    by (simp_all add: example_defs)
  have fails: "jwt_verify example_env ''xs1'' 100 = None"
    "jwt_verify example_env ''rs1'' 9000 = None"
    by (simp_all add: example_defs)
  show ?thesis
    using fails
      C9_unverified_token_changes_nothing [OF forged, of example_env 100 example_db "''s2''"]
      C9_unverified_token_changes_nothing [OF expired, of example_env 9000 example_db "''s2''"]
    by simp
qed

section \<open>The expiry comparison\<close>

text \<open>
  Claim C3. The lookup of the refresh matches a row only when its \<open>expires_at\<close> is
  strictly after the current instant. A row whose \<open>expires_at\<close> equals the current
  instant is not matched, so a refresh that presents its token finds no row and takes
  the reuse branch: it revokes the user's active rows and answers 403.
\<close>

theorem C3_expiry_is_strict:
  assumes tok: "js_or (cookies_refreshToken req) (body_refreshToken req) = Some tok" "tok \<noteq> []"
    and ver: "jwt_verify env tok now = Some decoded"
    and wf: "wf_sessions (RefreshTokenSession db)"
    and r: "r \<in> set (RefreshTokenSession db)" "decoded_sessionId decoded = Some (session_id r)"
    and at_expiry: "expires_at r = now"
  shows "(\<forall>sid uid th x. active_match sid uid th now x \<longrightarrow> now < expires_at x)
       \<and> findOne (active_match (session_id r) (decoded_id decoded)
                    (hashToken env tok) now) (RefreshTokenSession db) = None
       \<and> refreshToken env db req now newSessionId =
           (db\<lparr>RefreshTokenSession :=
                 map (\<lambda>x. if usuario_id x = decoded_id decoded \<and> revoked_at x = None
                           then x\<lparr>revoked_at := Some now\<rparr> else x)
                     (RefreshTokenSession db)\<rparr>,
            \<lparr>status = 403, body = Message RefreshTokenInvalidoOReutilizado,
             cookie = ClearRefreshCookie\<rparr>)"
proof (intro conjI)
  show "\<forall>sid uid th x. active_match sid uid th now x \<longrightarrow> now < expires_at x"
    by (simp add: active_match_def)
  have "\<not> active_match (session_id r) (decoded_id decoded)
            (hashToken env tok) now x" if x: "x \<in> set (RefreshTokenSession db)" for x
  proof (cases "x = r")
    case True
    then show ?thesis using at_expiry by (simp add: active_match_def)
  next
    case False
    then have "session_id x \<noteq> session_id r"
      using distinct_map_eqD [of session_id "RefreshTokenSession db" x r] wf x r(1)
      by (auto simp: wf_sessions_def)
    then show ?thesis by (simp add: active_match_def)
  qed
  then show none: "findOne (active_match (session_id r) (decoded_id decoded)
                    (hashToken env tok) now) (RefreshTokenSession db) = None"
    by (simp add: findOne_None_iff)
  show "refreshToken env db req now newSessionId =
           (db\<lparr>RefreshTokenSession :=
                 map (\<lambda>x. if usuario_id x = decoded_id decoded \<and> revoked_at x = None
                           then x\<lparr>revoked_at := Some now\<rparr> else x)
                     (RefreshTokenSession db)\<rparr>,
            \<lparr>status = 403, body = Message RefreshTokenInvalidoOReutilizado,
             cookie = ClearRefreshCookie\<rparr>)"
    unfolding refreshToken_reuse [OF tok ver none r(2)] by (simp add: update_where_def send_def)
qed

theorem C3_expiry_is_strict_witness:
  "expires_at example_session = 5000
   \<and> status (snd (refreshToken example_env example_db (cookie_request ''rs1'') 5000 ''s2''))
       = 403
   \<and> map revoked_at (RefreshTokenSession
         (fst (refreshToken example_env example_db (cookie_request ''rs1'') 5000 ''s2'')))
       = [Some 5000]
   \<and> status (snd (refreshToken example_env example_db (cookie_request ''rs1'') 4999 ''s2''))
       = 200"
proof -
  have tok: "js_or (cookies_refreshToken (cookie_request ''rs1''))
           (body_refreshToken (cookie_request ''rs1'')) = Some ''rs1''" "''rs1'' \<noteq> []"
    by (simp_all add: example_defs)
  have ver: "jwt_verify example_env ''rs1'' 5000
               = Some \<lparr>decoded_id = 7, decoded_sessionId = Some ''s1''\<rparr>"
    by (simp add: example_defs)
  have wf: "wf_sessions (RefreshTokenSession example_db)"
    by (simp add: example_defs)
  have r: "example_session \<in> set (RefreshTokenSession example_db)"
    "decoded_sessionId \<lparr>decoded_id = 7, decoded_sessionId = Some ''s1''\<rparr>
       = Some (session_id example_session)"
    "expires_at example_session = 5000"
    by (simp_all add: example_defs)
  have before: "status (snd (refreshToken example_env example_db (cookie_request ''rs1'')
                   4999 ''s2'')) = 200"
    by (simp add: refreshToken_def example_defs findOne_def rotate_transaction_def
          create_session_def instance_update_def update_where_def send_def Let_def)
  show ?thesis
    using C3_expiry_is_strict [OF tok ver wf r, of "''s2''"] before
    by (simp add: example_db_def example_session_def)
qed

section \<open>Rotation\<close>

text \<open>The example chain: two rotations that start from the token of the example row.\<close>

lemma example_chain:
  "rotation_chain example_env example_db ''rs1'' [(100, ''s2''), (200, ''s3'')] =
     Some (example_db_rotated, [''rs1'', ''rs2'', ''rs3''])"
  by (simp add: refreshToken_def example_defs findOne_def rotate_transaction_def
        create_session_def instance_update_def update_where_def send_def Let_def
        next_id_def or_null_def example_db_rotated_def)

text \<open>
  Claim C2. On a table that respects its primary key and unique columns, a refresh whose
  token matches an active row, with a new session identifier and token digest that the
  table does not hold yet, marks the found row (\<open>revoked_at\<close> is set and
  \<open>replaced_by_token_hash\<close> is the digest of the new token), appends a new active row
  with the new session identifier, and answers 200 with a new access token and the new
  refresh token in the cookie. The two writes are one transaction: when the insert
  collides, neither is kept. Consequently, after a chain of rotations that starts from a
  token with an active row, every earlier row of the chain is terminal and names the
  digest of its successor, the last row is active, and exactly one row of the chain is
  active.
\<close>

theorem C2_rotation_threads_one_active_row:
  assumes wf: "wf_sessions (RefreshTokenSession db)"
  shows
    "(\<forall>tok decoded sessionId a.
        js_or (cookies_refreshToken req) (body_refreshToken req) = Some tok \<and> tok \<noteq> []
        \<and> jwt_verify env tok now = Some decoded
        \<and> decoded_sessionId decoded = Some sessionId
        \<and> findOne (active_match sessionId (decoded_id decoded)
                     (hashToken env tok) now) (RefreshTokenSession db) = Some a \<longrightarrow>
        (newSessionId \<notin> session_id ` set (RefreshTokenSession db)
         \<and> hashToken env (createRefreshToken env (decoded_id decoded) newSessionId now)
              \<notin> token_hash ` set (RefreshTokenSession db) \<longrightarrow>
           refreshToken env db req now newSessionId =
             (db\<lparr>RefreshTokenSession :=
                   map (\<lambda>r. if r = a then
                               a\<lparr>revoked_at := Some now,
                                 replaced_by_token_hash := Some (hashToken env
                                   (createRefreshToken env (decoded_id decoded)
                                      newSessionId now))\<rparr>
                             else r) (RefreshTokenSession db)
                   @ [\<lparr>refresh_token_session_id = next_id (RefreshTokenSession db),
                       session_id = newSessionId, usuario_id = decoded_id decoded,
                       token_hash = hashToken env
                         (createRefreshToken env (decoded_id decoded) newSessionId now),
                       replaced_by_token_hash = None, revoked_at = None,
                       expires_at = now + REFRESH_TOKEN_MAX_AGE_MS env,
                       user_agent = or_null (headers_user_agent req),
                       ip_address = or_null (ip req)\<rparr>]\<rparr>,
              \<lparr>status = 200,
               body = AccessTokenBody (createAccessToken env (decoded_id decoded) now),
               cookie = SetRefreshCookie
                 (createRefreshToken env (decoded_id decoded) newSessionId now)\<rparr>))
        \<and> (newSessionId \<in> session_id ` set (RefreshTokenSession db)
            \<or> hashToken env (createRefreshToken env (decoded_id decoded) newSessionId now)
                 \<in> token_hash ` set (RefreshTokenSession db) \<longrightarrow>
              fst (refreshToken env db req now newSessionId) = db))
   \<and> (\<forall>db' toks.
        rotation_chain env db tok0 steps = Some (db', toks)
        \<and> (\<exists>r \<in> set (RefreshTokenSession db).
               token_hash r = hashToken env tok0 \<and> revoked_at r = None) \<longrightarrow>
        wf_sessions (RefreshTokenSession db')
        \<and> length toks = Suc (length steps) \<and> hd toks = tok0
        \<and> (\<forall>i < length steps. \<exists>r \<in> set (RefreshTokenSession db').
               token_hash r = hashToken env (toks ! i) \<and> revoked_at r \<noteq> None
               \<and> replaced_by_token_hash r = Some (hashToken env (toks ! Suc i)))
        \<and> (\<exists>r \<in> set (RefreshTokenSession db').
               token_hash r = hashToken env (last toks) \<and> revoked_at r = None)
        \<and> length (filter (\<lambda>r. token_hash r \<in> hashToken env ` set toks
                                \<and> revoked_at r = None)
                     (RefreshTokenSession db')) = 1)"
proof (intro conjI allI impI)
  fix tok decoded sessionId a
  assume m: "js_or (cookies_refreshToken req) (body_refreshToken req) = Some tok \<and> tok \<noteq> []
        \<and> jwt_verify env tok now = Some decoded
        \<and> decoded_sessionId decoded = Some sessionId
        \<and> findOne (active_match sessionId (decoded_id decoded)
                     (hashToken env tok) now) (RefreshTokenSession db) = Some a"
  then have tok: "js_or (cookies_refreshToken req) (body_refreshToken req) = Some tok"
      "tok \<noteq> []"
    and ver: "jwt_verify env tok now = Some decoded"
    and sess: "decoded_sessionId decoded = Some sessionId"
    and found: "findOne (active_match sessionId (decoded_id decoded)
                     (hashToken env tok) now) (RefreshTokenSession db) = Some a"
    by simp_all
  let ?th = "hashToken env (createRefreshToken env (decoded_id decoded) newSessionId now)"
  {
    assume "newSessionId \<notin> session_id ` set (RefreshTokenSession db)
         \<and> ?th \<notin> token_hash ` set (RefreshTokenSession db)"
    then have fresh: "newSessionId \<notin> session_id ` set (RefreshTokenSession db)"
      "?th \<notin> token_hash ` set (RefreshTokenSession db)"
      by simp_all
    show "refreshToken env db req now newSessionId =
             (db\<lparr>RefreshTokenSession :=
                   map (\<lambda>r. if r = a then
                               a\<lparr>revoked_at := Some now,
                                 replaced_by_token_hash := Some ?th\<rparr>
                             else r) (RefreshTokenSession db)
                   @ [\<lparr>refresh_token_session_id = next_id (RefreshTokenSession db),
                       session_id = newSessionId, usuario_id = decoded_id decoded,
                       token_hash = ?th,
                       replaced_by_token_hash = None, revoked_at = None,
                       expires_at = now + REFRESH_TOKEN_MAX_AGE_MS env,
                       user_agent = or_null (headers_user_agent req),
                       ip_address = or_null (ip req)\<rparr>]\<rparr>,
              \<lparr>status = 200,
               body = AccessTokenBody (createAccessToken env (decoded_id decoded) now),
               cookie = SetRefreshCookie
                 (createRefreshToken env (decoded_id decoded) newSessionId now)\<rparr>)"
      unfolding refreshToken_rotated [OF wf tok ver found fresh sess] send_def ..
  }
  {
    assume "newSessionId \<in> session_id ` set (RefreshTokenSession db)
            \<or> ?th \<in> token_hash ` set (RefreshTokenSession db)"
    then have "rotate_transaction (RefreshTokenSession db) a now newSessionId ?th
                 (decoded_id decoded) (now + REFRESH_TOKEN_MAX_AGE_MS env)
                 (or_null (headers_user_agent req)) (or_null (ip req)) = None"
      by (simp only: rotate_transaction_cases)
    then show "fst (refreshToken env db req now newSessionId) = db"
      by (simp add: refreshToken_rotate [OF tok ver found sess])
  }
next
  fix db' toks
  assume c: "rotation_chain env db tok0 steps = Some (db', toks)
        \<and> (\<exists>r \<in> set (RefreshTokenSession db).
               token_hash r = hashToken env tok0 \<and> revoked_at r = None)"
  then have chain: "rotation_chain env db tok0 steps = Some (db', toks)"
    and head: "\<exists>r \<in> set (RefreshTokenSession db).
               token_hash r = hashToken env tok0 \<and> revoked_at r = None"
    by simp_all
  note th = rotation_chain_threads [OF chain wf head]
  from th show "wf_sessions (RefreshTokenSession db')" by simp
  from th show len: "length toks = Suc (length steps)" by simp
  from th show "hd toks = tok0" by simp
  from th have thread: "\<forall>i < length steps. \<exists>r \<in> set (RefreshTokenSession db').
               token_hash r = hashToken env (toks ! i) \<and> revoked_at r \<noteq> None
               \<and> replaced_by_token_hash r = Some (hashToken env (toks ! Suc i))"
    by simp
  show "\<exists>r \<in> set (RefreshTokenSession db').
               token_hash r = hashToken env (toks ! i) \<and> revoked_at r \<noteq> None
               \<and> replaced_by_token_hash r = Some (hashToken env (toks ! Suc i))"
    if "i < length steps" for i
    using thread that by simp
  from th show last: "\<exists>r \<in> set (RefreshTokenSession db').
               token_hash r = hashToken env (last toks) \<and> revoked_at r = None"
    by simp
  have "distinct (map token_hash (RefreshTokenSession db'))"
    using th by (simp add: wf_sessions_def)
  moreover have "toks \<noteq> []" using len by auto
  moreover have "\<forall>i < length toks - 1. \<exists>r \<in> set (RefreshTokenSession db').
                 token_hash r = hashToken env (toks ! i) \<and> revoked_at r \<noteq> None"
  proof (intro allI impI)
    fix i assume "i < length toks - 1"
    then have "i < length steps" using len by simp
    with thread obtain r where "r \<in> set (RefreshTokenSession db')"
      "token_hash r = hashToken env (toks ! i)" "revoked_at r \<noteq> None"
      by blast
    then show "\<exists>r \<in> set (RefreshTokenSession db').
                 token_hash r = hashToken env (toks ! i) \<and> revoked_at r \<noteq> None"
      by blast
  qed
  ultimately show "length (filter (\<lambda>r. token_hash r \<in> hashToken env ` set toks
                                \<and> revoked_at r = None)
                     (RefreshTokenSession db')) = 1"
    using last by (rule one_active_in_chain)
qed


theorem C2_rotation_threads_one_active_row_witness:
  "wf_sessions (RefreshTokenSession example_db)
   \<and> rotation_chain example_env example_db ''rs1'' [(100, ''s2''), (200, ''s3'')] =
       Some (example_db_rotated, [''rs1'', ''rs2'', ''rs3''])
   \<and> length (filter (\<lambda>r. token_hash r \<in> hashToken example_env ` set [''rs1'', ''rs2'', ''rs3'']
                           \<and> revoked_at r = None)
                (RefreshTokenSession example_db_rotated)) = 1
   \<and> status (snd (refreshToken example_env example_db (cookie_request ''rs1'') 100 ''s2''))
       = 200
   \<and> map (\<lambda>r. (session_id r, revoked_at r, replaced_by_token_hash r))
         (RefreshTokenSession
            (fst (refreshToken example_env example_db (cookie_request ''rs1'') 100 ''s2'')))
       = [(''s1'', Some 100, Some ''#rs2''), (''s2'', None, None)]
   \<and> fst (refreshToken example_env example_db (cookie_request ''rs1'') 100 ''s1'')
       = example_db"
proof -
  have wf: "wf_sessions (RefreshTokenSession example_db)"
    by (simp add: example_defs)
  note c2 = C2_rotation_threads_one_active_row [OF wf, of "cookie_request ''rs1''"
      example_env 100 _ "''rs1''" "[(100, ''s2''), (200, ''s3'')]"]
  have m: "js_or (cookies_refreshToken (cookie_request ''rs1''))
             (body_refreshToken (cookie_request ''rs1'')) = Some ''rs1'' \<and> ''rs1'' \<noteq> []
        \<and> jwt_verify example_env ''rs1'' 100
            = Some \<lparr>decoded_id = 7, decoded_sessionId = Some ''s1''\<rparr>
        \<and> decoded_sessionId \<lparr>decoded_id = 7, decoded_sessionId = Some ''s1''\<rparr>
            = Some ''s1''
        \<and> findOne (active_match ''s1''
                     (decoded_id \<lparr>decoded_id = 7, decoded_sessionId = Some ''s1''\<rparr>)
                     (hashToken example_env ''rs1'') 100)
             (RefreshTokenSession example_db) = Some example_session"
    by (simp add: example_defs findOne_def)
  have fresh: "''s2'' \<notin> session_id ` set (RefreshTokenSession example_db)
         \<and> hashToken example_env (createRefreshToken example_env
              (decoded_id \<lparr>decoded_id = 7, decoded_sessionId = Some ''s1''\<rparr>) ''s2'' 100)
              \<notin> token_hash ` set (RefreshTokenSession example_db)"
    by (simp add: example_defs)
  have clash: "''s1'' \<in> session_id ` set (RefreshTokenSession example_db)
         \<or> hashToken example_env (createRefreshToken example_env
              (decoded_id \<lparr>decoded_id = 7, decoded_sessionId = Some ''s1''\<rparr>) ''s1'' 100)
              \<in> token_hash ` set (RefreshTokenSession example_db)"
    by (simp add: example_defs)
  have head: "rotation_chain example_env example_db ''rs1'' [(100, ''s2''), (200, ''s3'')] =
       Some (example_db_rotated, [''rs1'', ''rs2'', ''rs3''])
     \<and> (\<exists>r \<in> set (RefreshTokenSession example_db).
           token_hash r = hashToken example_env ''rs1'' \<and> revoked_at r = None)"
    by (intro conjI, rule example_chain) (simp add: example_defs)
  have one: "length (filter (\<lambda>r. token_hash r \<in> hashToken example_env ` set [''rs1'', ''rs2'', ''rs3'']
                           \<and> revoked_at r = None)
                (RefreshTokenSession example_db_rotated)) = 1"
    using c2 [where newSessionId = "''s2''", THEN conjunct2, rule_format, OF head] by simp
  have step: "refreshToken example_env example_db (cookie_request ''rs1'') 100 ''s2'' =
      (example_db\<lparr>RefreshTokenSession :=
         map (\<lambda>r. if r = example_session then
                     example_session\<lparr>revoked_at := Some 100,
                       replaced_by_token_hash := Some ''#rs2''\<rparr>
                   else r) (RefreshTokenSession example_db)
         @ [\<lparr>refresh_token_session_id = next_id (RefreshTokenSession example_db),
             session_id = ''s2'', usuario_id = 7, token_hash = ''#rs2'',
             replaced_by_token_hash = None, revoked_at = None,
             expires_at = 604800100, user_agent = None, ip_address = None\<rparr>]\<rparr>,
       \<lparr>status = 200, body = AccessTokenBody ''access'',
        cookie = SetRefreshCookie ''rs2''\<rparr>)"
    using c2 [where newSessionId = "''s2''", THEN conjunct1, rule_format, OF m,
              THEN conjunct1, rule_format, OF fresh]
    by (simp add: example_env_def cookie_request_def or_null_def truthy_def)
  have rollback: "fst (refreshToken example_env example_db (cookie_request ''rs1'') 100 ''s1'')
       = example_db"
    using c2 [where newSessionId = "''s1''", THEN conjunct1, rule_format, OF m,
              THEN conjunct2, rule_format, OF clash] .
  have ok: "status (snd (refreshToken example_env example_db (cookie_request ''rs1'') 100 ''s2''))
       = 200"
    unfolding step by simp
  have rows: "map (\<lambda>r. (session_id r, revoked_at r, replaced_by_token_hash r))
         (RefreshTokenSession
            (fst (refreshToken example_env example_db (cookie_request ''rs1'') 100 ''s2'')))
       = [(''s1'', Some 100, Some ''#rs2''), (''s2'', None, None)]"
    unfolding step by (simp add: example_db_def example_session_def)
  show ?thesis
    by (intro conjI wf example_chain one ok rows rollback)
qed

section \<open>Logout\<close>

lemma update_where_twice_revoke:
  "update_where (\<lambda>r. P r \<and> revoked_at r = None) (\<lambda>r. r\<lparr>revoked_at := Some t'\<rparr>)
     (update_where (\<lambda>r. P r \<and> revoked_at r = None) (\<lambda>r. r\<lparr>revoked_at := Some t\<rparr>) rows)
   = update_where (\<lambda>r. P r \<and> revoked_at r = None) (\<lambda>r. r\<lparr>revoked_at := Some t\<rparr>) rows"
  if "\<And>r t. P (r\<lparr>revoked_at := Some t\<rparr>) = P r"
  using that by (simp add: update_where_def)

lemma jwt_verify_later:
  "now \<le> now' \<Longrightarrow> jwt_verify env tok now' = Some decoded \<Longrightarrow>
   jwt_verify env tok now = Some decoded"
  by (auto simp: jwt_verify_def split: option.splits if_splits)

text \<open>
  Claim C4. Every logout answers 200 with the same message and clears the refresh
  cookie, whatever the token and the table are, so the answer tells nothing about the
  sessions. When the token verifies, every row of its session identifier and user is
  revoked afterwards; when it is absent, does not verify or carries no session
  identifier (so that no row is of its session), the table is unchanged.
  Repeating the logout with the same request at a later instant leaves the table as the
  first logout left it.
\<close>

theorem C4_logout_always_succeeds:
  "snd (logout env db req now) =
     \<lparr>status = 200, body = Message SesionCerradaExitosamente, cookie = ClearRefreshCookie\<rparr>
   \<and> (\<forall>tok decoded sessionId.
         js_or (cookies_refreshToken req) (body_refreshToken req) = Some tok \<and> tok \<noteq> []
         \<and> jwt_verify env tok now = Some decoded
         \<and> decoded_sessionId decoded = Some sessionId \<longrightarrow>
         fst (logout env db req now) =
           db\<lparr>RefreshTokenSession :=
                 map (\<lambda>r. if session_id r = sessionId
                              \<and> usuario_id r = decoded_id decoded \<and> revoked_at r = None
                           then r\<lparr>revoked_at := Some now\<rparr> else r)
                     (RefreshTokenSession db)\<rparr>
         \<and> (\<forall>r \<in> set (RefreshTokenSession (fst (logout env db req now))).
               session_id r = sessionId \<and> usuario_id r = decoded_id decoded
               \<longrightarrow> revoked_at r \<noteq> None))
   \<and> (\<not> truthy (js_or (cookies_refreshToken req) (body_refreshToken req)) \<longrightarrow>
         fst (logout env db req now) = db)
   \<and> (\<forall>tok. js_or (cookies_refreshToken req) (body_refreshToken req) = Some tok
         \<and> jwt_verify env tok now = None \<longrightarrow> fst (logout env db req now) = db)
   \<and> (\<forall>tok decoded.
         js_or (cookies_refreshToken req) (body_refreshToken req) = Some tok
         \<and> jwt_verify env tok now = Some decoded \<and> decoded_sessionId decoded = None \<longrightarrow>
         fst (logout env db req now) = db)
   \<and> (now \<le> now' \<longrightarrow>
         fst (logout env (fst (logout env db req now)) req now') = fst (logout env db req now))"
proof (intro conjI allI impI)
  show "snd (logout env db req now) =
     \<lparr>status = 200, body = Message SesionCerradaExitosamente, cookie = ClearRefreshCookie\<rparr>"
    by (simp add: logout_def Let_def send_def split: option.splits)
next
  fix tok decoded sessionId
  assume a: "js_or (cookies_refreshToken req) (body_refreshToken req) = Some tok \<and> tok \<noteq> []
         \<and> jwt_verify env tok now = Some decoded
         \<and> decoded_sessionId decoded = Some sessionId"
  then have res: "fst (logout env db req now) =
      db\<lparr>RefreshTokenSession :=
            update_where (\<lambda>r. (session_id r = sessionId
                               \<and> usuario_id r = decoded_id decoded) \<and> revoked_at r = None)
              (\<lambda>r. r\<lparr>revoked_at := Some now\<rparr>) (RefreshTokenSession db)\<rparr>"
    by (simp add: logout_def Let_def truthy_def)
  show "fst (logout env db req now) =
           db\<lparr>RefreshTokenSession :=
                 map (\<lambda>r. if session_id r = sessionId
                              \<and> usuario_id r = decoded_id decoded \<and> revoked_at r = None
                           then r\<lparr>revoked_at := Some now\<rparr> else r)
                     (RefreshTokenSession db)\<rparr>"
    unfolding res by (simp add: update_where_def conj_assoc)
  show "\<forall>r \<in> set (RefreshTokenSession (fst (logout env db req now))).
          session_id r = sessionId \<and> usuario_id r = decoded_id decoded
          \<longrightarrow> revoked_at r \<noteq> None"
    unfolding res sessions_of_update by (intro ballI impI) (rule update_where_revoked)
next
  assume "\<not> truthy (js_or (cookies_refreshToken req) (body_refreshToken req))"
  then show "fst (logout env db req now) = db"
    by (simp add: logout_def Let_def)
next
  fix tok
  assume "js_or (cookies_refreshToken req) (body_refreshToken req) = Some tok
         \<and> jwt_verify env tok now = None"
  then show "fst (logout env db req now) = db"
    by (simp add: logout_def Let_def)
next
  fix tok decoded
  assume "js_or (cookies_refreshToken req) (body_refreshToken req) = Some tok
         \<and> jwt_verify env tok now = Some decoded \<and> decoded_sessionId decoded = None"
  then show "fst (logout env db req now) = db"
    by (simp add: logout_def Let_def)
next
  assume le: "now \<le> now'"
  let ?db1 = "fst (logout env db req now)"
  show "fst (logout env ?db1 req now') = ?db1"
  proof (cases "truthy (js_or (cookies_refreshToken req) (body_refreshToken req))")
    case False
    then show ?thesis by (simp add: logout_def Let_def)
  next
    case True
    then obtain tok where tok: "js_or (cookies_refreshToken req) (body_refreshToken req) = Some tok"
      "tok \<noteq> []"
      by (auto simp: truthy_def split: option.splits)
    show ?thesis
    proof (cases "jwt_verify env tok now'")
      case None
      then show ?thesis using tok by (simp add: logout_def Let_def truthy_def)
    next
      case (Some decoded)
      then have first: "jwt_verify env tok now = Some decoded"
        using le by (rule jwt_verify_later [rotated])
      show ?thesis
      proof (cases "decoded_sessionId decoded")
        case None
        then show ?thesis
          using tok first Some by (simp add: logout_def Let_def truthy_def)
      next
        case sess: (Some sessionId)
        let ?P = "\<lambda>r. session_id r = sessionId \<and> usuario_id r = decoded_id decoded"
        have res: "?db1 = db\<lparr>RefreshTokenSession :=
              update_where (\<lambda>r. ?P r \<and> revoked_at r = None)
                (\<lambda>r. r\<lparr>revoked_at := Some now\<rparr>) (RefreshTokenSession db)\<rparr>"
          using tok first sess by (simp add: logout_def Let_def truthy_def)
        have "fst (logout env ?db1 req now') =
            ?db1\<lparr>RefreshTokenSession :=
              update_where (\<lambda>r. ?P r \<and> revoked_at r = None)
                (\<lambda>r. r\<lparr>revoked_at := Some now'\<rparr>) (RefreshTokenSession ?db1)\<rparr>"
          using tok Some sess by (simp add: logout_def Let_def truthy_def)
        also have "\<dots> = ?db1"
          unfolding res sessions_of_update
          by (subst update_where_twice_revoke) simp_all
        finally show ?thesis .
      qed
    qed
  qed
qed

theorem C4_logout_always_succeeds_witness:
  "snd (logout example_env example_db (cookie_request ''rs1'') 100) =
     \<lparr>status = 200, body = Message SesionCerradaExitosamente, cookie = ClearRefreshCookie\<rparr>
   \<and> map revoked_at
         (RefreshTokenSession (fst (logout example_env example_db (cookie_request ''rs1'') 100)))
       = [Some 100]
   \<and> fst (logout example_env
            (fst (logout example_env example_db (cookie_request ''rs1'') 100))
            (cookie_request ''rs1'') 200)
       = fst (logout example_env example_db (cookie_request ''rs1'') 100)
   \<and> logout example_env example_db no_token_request 100 =
       (example_db,
        \<lparr>status = 200, body = Message SesionCerradaExitosamente, cookie = ClearRefreshCookie\<rparr>)
   \<and> logout example_env example_db (cookie_request ''xs1'') 100 =
       (example_db,
        \<lparr>status = 200, body = Message SesionCerradaExitosamente, cookie = ClearRefreshCookie\<rparr>)
   \<and> logout example_env example_db (cookie_request ''i7'') 100 =
       (example_db,
        \<lparr>status = 200, body = Message SesionCerradaExitosamente, cookie = ClearRefreshCookie\<rparr>)"
proof -
  note sessionless = C4_logout_always_succeeds
    [of example_env example_db "cookie_request ''i7''" 100 200]
  have no_sess: "js_or (cookies_refreshToken (cookie_request ''i7''))
           (body_refreshToken (cookie_request ''i7'')) = Some ''i7''
         \<and> jwt_verify example_env ''i7'' 100
             = Some \<lparr>decoded_id = 7, decoded_sessionId = None\<rparr>
         \<and> decoded_sessionId \<lparr>decoded_id = 7, decoded_sessionId = None\<rparr> = None"
    by (simp add: example_defs)
  have 6: "logout example_env example_db (cookie_request ''i7'') 100 =
       (example_db,
        \<lparr>status = 200, body = Message SesionCerradaExitosamente, cookie = ClearRefreshCookie\<rparr>)"
    using sessionless [THEN conjunct2, THEN conjunct2, THEN conjunct2, THEN conjunct2,
                       THEN conjunct1, rule_format, OF no_sess] sessionless [THEN conjunct1]
    by (simp add: prod_eq_iff)
  note valid = C4_logout_always_succeeds
    [of example_env example_db "cookie_request ''rs1''" 100 200]
  note absent = C4_logout_always_succeeds
    [of example_env example_db no_token_request 100 200]
  note forged = C4_logout_always_succeeds
    [of example_env example_db "cookie_request ''xs1''" 100 200]
  have tok: "js_or (cookies_refreshToken (cookie_request ''rs1''))
           (body_refreshToken (cookie_request ''rs1'')) = Some ''rs1'' \<and> ''rs1'' \<noteq> []
         \<and> jwt_verify example_env ''rs1'' 100
             = Some \<lparr>decoded_id = 7, decoded_sessionId = Some ''s1''\<rparr>
         \<and> decoded_sessionId \<lparr>decoded_id = 7, decoded_sessionId = Some ''s1''\<rparr>
             = Some ''s1''"
    by (simp add: example_defs)
  have no_tok: "\<not> truthy (js_or (cookies_refreshToken no_token_request)
                             (body_refreshToken no_token_request))"
    by (simp add: no_token_request_def example_defs)
  have bad: "js_or (cookies_refreshToken (cookie_request ''xs1''))
           (body_refreshToken (cookie_request ''xs1'')) = Some ''xs1''
         \<and> jwt_verify example_env ''xs1'' 100 = None"
    by (simp add: example_defs)
  have 1: "snd (logout example_env example_db (cookie_request ''rs1'') 100) =
     \<lparr>status = 200, body = Message SesionCerradaExitosamente, cookie = ClearRefreshCookie\<rparr>"
    using valid by (rule conjunct1)
  have 2: "map revoked_at
         (RefreshTokenSession (fst (logout example_env example_db (cookie_request ''rs1'') 100)))
       = [Some 100]"
    using valid [THEN conjunct2, THEN conjunct1, rule_format, OF tok]
    by (simp add: example_db_def example_session_def)
  have 3: "fst (logout example_env
            (fst (logout example_env example_db (cookie_request ''rs1'') 100))
            (cookie_request ''rs1'') 200)
       = fst (logout example_env example_db (cookie_request ''rs1'') 100)"
    using valid by simp
  have 4: "logout example_env example_db no_token_request 100 =
       (example_db,
        \<lparr>status = 200, body = Message SesionCerradaExitosamente, cookie = ClearRefreshCookie\<rparr>)"
    using absent no_tok by (simp add: prod_eq_iff)
  have 5: "logout example_env example_db (cookie_request ''xs1'') 100 =
       (example_db,
        \<lparr>status = 200, body = Message SesionCerradaExitosamente, cookie = ClearRefreshCookie\<rparr>)"
    using forged [THEN conjunct2, THEN conjunct2, THEN conjunct2, THEN conjunct1,
                  rule_format, OF bad] forged [THEN conjunct1]
    by (simp add: prod_eq_iff)
  show ?thesis using 1 2 3 4 5 6 by (intro conjI)
qed

section \<open>Properties of the notification history\<close>

lemma run_history_inv:
  "maxHistory (run_history ops) = 6 \<and> length (history (run_history ops)) \<le> 6"
proof -
  have "maxHistory (foldl apply_history_op h ops) = 6
          \<and> length (history (foldl apply_history_op h ops)) \<le> 6"
    if "maxHistory h = 6" and "length (history h) \<le> 6" for h
    using that
  proof (induction ops arbitrary: h)
    case Nil
    then show ?case by simp
  next
    case (Cons x xs)
    show ?case
    proof (cases x)
      case (Add n t)
      have "maxHistory (addNotification h n t) = 6"
        and "length (history (addNotification h n t)) \<le> 6"
        using Cons.prems by (simp_all add: addNotification_def Let_def)
      then show ?thesis using Cons.IH Add by simp
    next
      case Clear
      have "maxHistory (clearHistory h) = 6" and "length (history (clearHistory h)) \<le> 6"
        using Cons.prems by (simp_all add: clearHistory_def)
      then show ?thesis using Cons.IH Clear by simp
    qed
  qed
  then show ?thesis
    by (simp add: run_history_def new_NotificationHistory_def)
qed

lemma addNotification_history:
  "maxHistory h = 6 \<Longrightarrow>
   history (addNotification h n t) = take 6 (stamped (n, t) # history h)"
  by (simp add: addNotification_def stamped_def Let_def)

lemma take_append_take: "take k (xs @ take k ys) = take k (xs @ ys)"
  by (simp add: min_def)

lemma foldl_adds:
  "maxHistory h = 6 \<Longrightarrow> length (history h) \<le> 6 \<Longrightarrow>
   history (foldl apply_history_op h (map (\<lambda>(n, t). Add n t) ns))
     = take 6 (rev (map stamped ns) @ history h)"
proof (induction ns arbitrary: h)
  case Nil
  then show ?case by simp
next
  case (Cons p ps)
  obtain n t where p: "p = (n, t)" by (cases p)
  have m: "maxHistory (addNotification h n t) = 6"
    and l: "length (history (addNotification h n t)) \<le> 6"
    using Cons.prems by (simp_all add: addNotification_def Let_def)
  have "history (foldl apply_history_op h (map (\<lambda>(n, t). Add n t) (p # ps)))
      = history (foldl apply_history_op (addNotification h n t) (map (\<lambda>(n, t). Add n t) ps))"
    by (simp add: p)
  also have "\<dots> = take 6 (rev (map stamped ps) @ history (addNotification h n t))"
    by (rule Cons.IH [OF m l])
  also have "\<dots> = take 6 (rev (map stamped ps) @ take 6 (stamped (n, t) # history h))"
    by (simp only: addNotification_history [OF Cons.prems(1)])
  also have "\<dots> = take 6 (rev (map stamped ps) @ stamped (n, t) # history h)"
    by (rule take_append_take)
  also have "\<dots> = take 6 (rev (map stamped (p # ps)) @ history h)"
    by (simp add: p)
  finally show ?case .
qed

lemma run_history_adds:
  "history (run_history (map (\<lambda>(n, t). Add n t) ns)) = take 6 (rev (map stamped ns))"
  using foldl_adds [of new_NotificationHistory ns]
  by (simp add: run_history_def new_NotificationHistory_def)

lemma getRecent_nonneg:
  "0 \<le> limit \<Longrightarrow> getRecentNotifications h (Some limit) = take (nat limit) (history h)"
  by (simp add: getRecentNotifications_def slice0_def Let_def min_def)

lemma getRecent_default:
  "getRecentNotifications (run_history ops) None = history (run_history ops)"
  using run_history_inv [of ops]
  by (simp add: getRecentNotifications_def slice0_def Let_def)

text \<open>
  Claim C6. A history built by the constructor and any run of additions and clears never
  holds more than 6 entries. An addition fills in the timestamp of a notification that
  has none, puts the notification in front and keeps the first 6 entries. Without a
  limit, and with a limit that is not negative, the recent notifications are the
  entries from the front, most recent first. After 10 additions to a new history, a
  request for 10 returns the last 6 added, the latest first.
\<close>

theorem C6_history_keeps_six_most_recent:
  "length (history (run_history ops)) \<le> 6
   \<and> history (addNotification (run_history ops) n now_iso) =
       take 6 ((if truthy (timestamp n) then n else n\<lparr>timestamp := Some now_iso\<rparr>)
               # history (run_history ops))
   \<and> getRecentNotifications (run_history ops) None = history (run_history ops)
   \<and> (0 \<le> limit \<longrightarrow>
        getRecentNotifications (run_history ops) (Some limit) =
          take (nat limit) (history (run_history ops)))
   \<and> history (run_history (map (\<lambda>(n, t). Add n t) ns)) = take 6 (rev (map stamped ns))
   \<and> (length ns = 10 \<longrightarrow>
        getRecentNotifications (run_history (map (\<lambda>(n, t). Add n t) ns)) (Some 10) =
          rev (map stamped (drop 4 ns)))"
proof (intro conjI impI)
  show "length (history (run_history ops)) \<le> 6"
    using run_history_inv [of ops] by simp
  show "history (addNotification (run_history ops) n now_iso) =
       take 6 ((if truthy (timestamp n) then n else n\<lparr>timestamp := Some now_iso\<rparr>)
               # history (run_history ops))"
    using run_history_inv [of ops]
    by (simp add: addNotification_history stamped_def)
  show "getRecentNotifications (run_history ops) None = history (run_history ops)"
    by (rule getRecent_default)
  show "getRecentNotifications (run_history ops) (Some limit) =
          take (nat limit) (history (run_history ops))" if "0 \<le> limit"
    using that by (rule getRecent_nonneg)
  show adds: "history (run_history (map (\<lambda>(n, t). Add n t) ns)) = take 6 (rev (map stamped ns))"
    by (rule run_history_adds)
  show "getRecentNotifications (run_history (map (\<lambda>(n, t). Add n t) ns)) (Some 10) =
          rev (map stamped (drop 4 ns))" if "length ns = 10"
    using that by (simp add: getRecent_nonneg adds take_rev drop_map)
qed

theorem C6_history_keeps_six_most_recent_witness:
  "length ten_notifications = 10
   \<and> map message
        (getRecentNotifications
           (run_history (map (\<lambda>(n, t). Add n t) ten_notifications)) (Some 10))
       = [''9'', ''8'', ''7'', ''6'', ''5'', ''4'']
   \<and> map timestamp
        (getRecentNotifications
           (run_history (map (\<lambda>(n, t). Add n t) ten_notifications)) (Some 10))
       = [Some ''t9'', Some ''t8'', Some ''t7'', Some ''t6'', Some ''t5'', Some ''t4'']
   \<and> getRecentNotifications (run_history (map (\<lambda>(n, t). Add n t) ten_notifications))
        (Some 2)
       = take 2 (history (run_history (map (\<lambda>(n, t). Add n t) ten_notifications)))"
proof -
  have len: "length ten_notifications = 10"
    by (simp add: ten_notifications_def)
  note ten = ten_notifications_def
  note c6 = C6_history_keeps_six_most_recent
    [where ns = ten_notifications and ops = "map (\<lambda>(n, t). Add n t) ten_notifications"
       and limit = 2]
  have recent: "getRecentNotifications
      (run_history (map (\<lambda>(n, t). Add n t) ten_notifications)) (Some 10)
      = rev (map stamped (drop 4 ten_notifications))"
    using c6 len by simp
  have two: "getRecentNotifications (run_history (map (\<lambda>(n, t). Add n t) ten_notifications))
        (Some 2)
       = take 2 (history (run_history (map (\<lambda>(n, t). Add n t) ten_notifications)))"
    using c6 by simp
  have msgs: "map message (rev (map stamped (drop 4 ten_notifications)))
      = [''9'', ''8'', ''7'', ''6'', ''5'', ''4'']"
    unfolding ten by (simp add: stamped_def example_notification_def truthy_def)
  have stamps: "map timestamp (rev (map stamped (drop 4 ten_notifications)))
      = [Some ''t9'', Some ''t8'', Some ''t7'', Some ''t6'', Some ''t5'', Some ''t4'']"
    unfolding ten by (simp add: stamped_def example_notification_def truthy_def)
  show ?thesis
    unfolding recent using len msgs stamps two by (intro conjI)
qed

section \<open>Room assignment\<close>

lemma rooms_join: "rooms (join room s) = insert room (rooms s)"
  by (simp add: join_def)

text \<open>
  Claim C7. The rooms a connection joins are determined by its role and its user
  identifier: every connection joins the global room and the room of its user; a cook
  joins the cooks room, a waiter the waiters room, an administrator the administrators,
  cooks and waiters rooms; any other role joins none of the three role rooms. The
  connection handler assigns the rooms once, for a socket that passed the
  authentication, and a rejected handshake never reaches it.
\<close>

theorem C7_rooms_follow_role:
  "(userRol s = ''cocinero'' \<longrightarrow>
      rooms (assignUserToRooms s) =
        rooms s \<union> {''notificaciones_globales'', ''cocineros'',
                   ''usuario_'' @ string_of_nat (userId s)})
   \<and> (userRol s = ''mesero'' \<longrightarrow>
      rooms (assignUserToRooms s) =
        rooms s \<union> {''notificaciones_globales'', ''meseros'',
                   ''usuario_'' @ string_of_nat (userId s)})
   \<and> (userRol s = ''administrador'' \<longrightarrow>
      rooms (assignUserToRooms s) =
        rooms s \<union> {''notificaciones_globales'', ''administradores'', ''cocineros'',
                   ''meseros'', ''usuario_'' @ string_of_nat (userId s)})
   \<and> (userRol s \<noteq> ''cocinero'' \<and> userRol s \<noteq> ''mesero'' \<and> userRol s \<noteq> ''administrador''
        \<longrightarrow>
      rooms (assignUserToRooms s) =
        rooms s \<union> {''notificaciones_globales'', ''usuario_'' @ string_of_nat (userId s)}
      \<and> (\<forall>room \<in> {''cocineros'', ''meseros'', ''administradores''}.
            room \<in> rooms (assignUserToRooms s) \<longleftrightarrow> room \<in> rooms s))
   \<and> ''notificaciones_globales'' \<in> rooms (assignUserToRooms s)
   \<and> ''usuario_'' @ string_of_nat (userId s) \<in> rooms (assignUserToRooms s)
   \<and> on_connection s now_iso =
       (assignUserToRooms s,
        [Emit ''estado_conexion'' (EstadoConexion True (rooms (assignUserToRooms s)) now_iso)])
   \<and> (\<forall>e. authenticateSocket verify_access db s now = Inl e \<longrightarrow>
         connect verify_access db s now now_iso = Inl e)
   \<and> (\<forall>s'. authenticateSocket verify_access db s now = Inr s' \<longrightarrow>
         connect verify_access db s now now_iso = Inr (on_connection s' now_iso))"
proof -
  let ?g = "''notificaciones_globales''" and ?u = "''usuario_'' @ string_of_nat (userId s)"
  have cook: "rooms (assignUserToRooms s) = rooms s \<union> {?g, ''cocineros'', ?u}"
    if "userRol s = ''cocinero''"
    using that by (simp add: assignUserToRooms_def rooms_join Let_def insert_commute)
  have waiter: "rooms (assignUserToRooms s) = rooms s \<union> {?g, ''meseros'', ?u}"
    if "userRol s = ''mesero''"
    using that by (simp add: assignUserToRooms_def rooms_join Let_def insert_commute)
  have admin: "rooms (assignUserToRooms s) =
      rooms s \<union> {?g, ''administradores'', ''cocineros'', ''meseros'', ?u}"
    if "userRol s = ''administrador''"
    using that by (simp add: assignUserToRooms_def rooms_join Let_def insert_commute)
  have other: "rooms (assignUserToRooms s) = rooms s \<union> {?g, ?u}"
    if "userRol s \<noteq> ''cocinero'' \<and> userRol s \<noteq> ''mesero'' \<and> userRol s \<noteq> ''administrador''"
    using that by (simp add: assignUserToRooms_def rooms_join Let_def insert_commute)
  have no_role_room: "\<forall>room \<in> {''cocineros'', ''meseros'', ''administradores''}.
            room \<in> rooms (assignUserToRooms s) \<longleftrightarrow> room \<in> rooms s"
    if "userRol s \<noteq> ''cocinero'' \<and> userRol s \<noteq> ''mesero'' \<and> userRol s \<noteq> ''administrador''"
    unfolding other [OF that] by simp
  have global: "?g \<in> rooms (assignUserToRooms s)"
    by (simp add: assignUserToRooms_def rooms_join Let_def)
  have user: "?u \<in> rooms (assignUserToRooms s)"
    by (simp add: assignUserToRooms_def rooms_join Let_def)
  have conn: "on_connection s now_iso =
       (assignUserToRooms s,
        [Emit ''estado_conexion'' (EstadoConexion True (rooms (assignUserToRooms s)) now_iso)])"
    by (simp add: on_connection_def Let_def)
  have rejected: "\<forall>e. authenticateSocket verify_access db s now = Inl e \<longrightarrow>
         connect verify_access db s now now_iso = Inl e"
    and accepted: "\<forall>s'. authenticateSocket verify_access db s now = Inr s' \<longrightarrow>
         connect verify_access db s now now_iso = Inr (on_connection s' now_iso)"
    by (simp_all add: connect_def)
  show ?thesis
    by (intro conjI impI cook waiter admin other no_role_room global user conn
          rejected accepted)
       ((elim conjE)?, assumption)+
qed

theorem C7_rooms_follow_role_witness:
  "rooms (assignUserToRooms (example_socket ''cocinero'')) =
     {''notificaciones_globales'', ''cocineros'', ''usuario_42'', ''socket-id''}
   \<and> rooms (assignUserToRooms (example_socket ''mesero'')) =
     {''notificaciones_globales'', ''meseros'', ''usuario_42'', ''socket-id''}
   \<and> rooms (assignUserToRooms (example_socket ''administrador'')) =
     {''notificaciones_globales'', ''administradores'', ''cocineros'', ''meseros'',
      ''usuario_42'', ''socket-id''}
   \<and> rooms (assignUserToRooms (example_socket ''cajero'')) =
     {''notificaciones_globales'', ''usuario_42'', ''socket-id''}"
proof -
  have n: "string_of_nat 42 = ''42''"
    by (simp add: numeral_eq_iff)
  have roles: "userRol (example_socket ''cajero'') \<noteq> ''cocinero''
      \<and> userRol (example_socket ''cajero'') \<noteq> ''mesero''
      \<and> userRol (example_socket ''cajero'') \<noteq> ''administrador''"
    and cook: "userRol (example_socket ''cocinero'') = ''cocinero''"
    and waiter: "userRol (example_socket ''mesero'') = ''mesero''"
    and admin: "userRol (example_socket ''administrador'') = ''administrador''"
    and uid: "userId (example_socket role) = 42"
    and initial: "rooms (example_socket role) = {''socket-id''}" for role
    by (simp_all add: example_socket_def)
  have 1: "rooms (assignUserToRooms (example_socket ''cocinero'')) =
     {''notificaciones_globales'', ''cocineros'', ''usuario_42'', ''socket-id''}"
    using C7_rooms_follow_role [of "example_socket ''cocinero''", THEN conjunct1,
        rule_format, OF cook]
    unfolding uid initial n by simp
  have 2: "rooms (assignUserToRooms (example_socket ''mesero'')) =
     {''notificaciones_globales'', ''meseros'', ''usuario_42'', ''socket-id''}"
    using C7_rooms_follow_role [of "example_socket ''mesero''", THEN conjunct2,
        THEN conjunct1, rule_format, OF waiter]
    unfolding uid initial n by simp
  have 3: "rooms (assignUserToRooms (example_socket ''administrador'')) =
     {''notificaciones_globales'', ''administradores'', ''cocineros'', ''meseros'',
      ''usuario_42'', ''socket-id''}"
    using C7_rooms_follow_role [of "example_socket ''administrador''", THEN conjunct2,
        THEN conjunct2, THEN conjunct1, rule_format, OF admin]
    unfolding uid initial n by simp
  have 4: "rooms (assignUserToRooms (example_socket ''cajero'')) =
     {''notificaciones_globales'', ''usuario_42'', ''socket-id''}"
    using C7_rooms_follow_role [of "example_socket ''cajero''", THEN conjunct2,
        THEN conjunct2, THEN conjunct2, THEN conjunct1, rule_format, OF roles,
        THEN conjunct1]
    unfolding uid initial n by simp
  show ?thesis using 1 2 3 4 by (intro conjI)
qed

section \<open>The history request\<close>

text \<open>
  Claim C8. The handler of the history request always emits exactly one event: to an
  administrator the snapshot of the notification history, which for a history built by
  the constructor and its operations is the whole history, and to every other role the
  error event that says the request is not authorised.
\<close>

theorem C8_history_request_is_answered:
  "(userRol s = ''administrador'' \<longrightarrow>
      on_obtener_historial s h =
        [Emit ''historial_dashboard'' (HistorialDashboard (getRecentNotifications h None))])
   \<and> (userRol s \<noteq> ''administrador'' \<longrightarrow>
      on_obtener_historial s h =
        [Emit ''error'' (ErrorPayload NoAutorizadoParaObtenerHistorial)])
   \<and> on_obtener_historial s h \<noteq> []
   \<and> (userRol s = ''administrador'' \<longrightarrow>
      on_obtener_historial s (run_history ops) =
        [Emit ''historial_dashboard'' (HistorialDashboard (history (run_history ops)))])"
  by (simp add: on_obtener_historial_def getRecent_default)

theorem C8_history_request_is_answered_witness:
  "on_obtener_historial (example_socket ''administrador'')
      (run_history [Add (example_notification 1) ''t1'', Add (example_notification 2) ''t2''])
     = [Emit ''historial_dashboard''
          (HistorialDashboard
             [(example_notification 2)\<lparr>timestamp := Some ''t2''\<rparr>,
              (example_notification 1)\<lparr>timestamp := Some ''t1''\<rparr>])]
   \<and> on_obtener_historial (example_socket ''mesero'')
      (run_history [Add (example_notification 1) ''t1'', Add (example_notification 2) ''t2''])
     = [Emit ''error'' (ErrorPayload NoAutorizadoParaObtenerHistorial)]"
proof -
  let ?h = "run_history [Add (example_notification 1) ''t1'', Add (example_notification 2) ''t2'']"
  have admin: "userRol (example_socket ''administrador'') = ''administrador''"
    and waiter: "userRol (example_socket ''mesero'') \<noteq> ''administrador''"
    by (simp_all add: example_socket_def)
  have hist: "history ?h = [(example_notification 2)\<lparr>timestamp := Some ''t2''\<rparr>,
              (example_notification 1)\<lparr>timestamp := Some ''t1''\<rparr>]"
    by (simp add: run_history_def new_NotificationHistory_def addNotification_def Let_def
          example_notification_def truthy_def)
  have 1: "on_obtener_historial (example_socket ''administrador'') ?h
     = [Emit ''historial_dashboard'' (HistorialDashboard (history ?h))]"
    by (rule C8_history_request_is_answered [THEN conjunct2, THEN conjunct2,
          THEN conjunct2, rule_format, OF admin])
  have 2: "on_obtener_historial (example_socket ''mesero'') ?h
     = [Emit ''error'' (ErrorPayload NoAutorizadoParaObtenerHistorial)]"
    by (rule C8_history_request_is_answered [THEN conjunct2, THEN conjunct1,
          rule_format, OF waiter])
  show ?thesis using 1 2 unfolding hist by (intro conjI)
qed

section \<open>Login with a pending password change\<close>

text \<open>
  Claim C10. For a user found by the mounted login whose password is valid and whose
  \<open>must_change_password\<close> flag is set, the answer is 200 with the flag and the user's
  identifier, without an access token, without a refresh token and without a cookie, and
  the database, the session table included, is unchanged. A user without the flag and
  with a role gets 200 with an access token, so a 200 answer of the login carries an
  access token in some cases and none in others.
\<close>

theorem C10_login_with_pending_password_change:
  assumes found: "findOne_Usuario db (\<lambda>u. correo u = body_correo req) = Some (u, r)"
    and valid: "bcrypt_compare env (body_contrasena req) (contrasena u)"
  shows "(must_change_password u \<longrightarrow>
            login env db req now =
              (db, \<lparr>status = 200,
                    body = MustChangePasswordBody (usuario_pk u) DebeCambiarContrasena,
                    cookie = CookieUntouched\<rparr>)
            \<and> body_accessToken (body (snd (login env db req now))) = None
            \<and> body_refreshTokenOut (body (snd (login env db req now))) = None
            \<and> RefreshTokenSession (fst (login env db req now)) = RefreshTokenSession db)
       \<and> (\<forall>ro. \<not> must_change_password u \<and> r = Some ro \<longrightarrow>
            status (snd (login env db req now)) = 200
            \<and> body_accessToken (body (snd (login env db req now)))
                = Some (sign_access env (usuario_pk u) now))"
  using assms by (simp add: login_def send_def)

theorem C10_login_with_pending_password_change_witness:
  "login example_login_env example_users
      \<lparr>body_correo = ''ana@example.com'', body_contrasena = ''secret''\<rparr> 100 =
     (example_users,
      \<lparr>status = 200, body = MustChangePasswordBody 1 DebeCambiarContrasena,
       cookie = CookieUntouched\<rparr>)
   \<and> body_accessToken (body (snd (login example_login_env example_users
        \<lparr>body_correo = ''ana@example.com'', body_contrasena = ''secret''\<rparr> 100))) = None
   \<and> status (snd (login example_login_env example_users
        \<lparr>body_correo = ''luis@example.com'', body_contrasena = ''secret''\<rparr> 100)) = 200
   \<and> body_accessToken (body (snd (login example_login_env example_users
        \<lparr>body_correo = ''luis@example.com'', body_contrasena = ''secret''\<rparr> 100)))
       = Some ''access''"
proof -
  let ?ana = "\<lparr>usuario_pk = 1, nombre = ''Ana'', rol_id = 1, correo = ''ana@example.com'',
          contrasena = ''$secret'', must_change_password = True, deleted_at = None\<rparr>"
  let ?luis = "\<lparr>usuario_pk = 2, nombre = ''Luis'', rol_id = 2, correo = ''luis@example.com'',
          contrasena = ''$secret'', must_change_password = False, deleted_at = None\<rparr>"
  let ?req_ana = "\<lparr>body_correo = ''ana@example.com'', body_contrasena = ''secret''\<rparr>"
  let ?req_luis = "\<lparr>body_correo = ''luis@example.com'', body_contrasena = ''secret''\<rparr>"
  have ana: "findOne_Usuario example_users (\<lambda>u. correo u = body_correo ?req_ana)
      = Some (?ana, Some \<lparr>rol_pk = 1, nombre_rol = ''administrador''\<rparr>)"
    and luis: "findOne_Usuario example_users (\<lambda>u. correo u = body_correo ?req_luis)
      = Some (?luis, Some \<lparr>rol_pk = 2, nombre_rol = ''mesero''\<rparr>)"
    by (simp_all add: findOne_Usuario_def findOne_def example_users_def)
  have pw_ana: "bcrypt_compare example_login_env (body_contrasena ?req_ana) (contrasena ?ana)"
    and pw_luis: "bcrypt_compare example_login_env (body_contrasena ?req_luis) (contrasena ?luis)"
    by (simp_all add: example_login_env_def)
  have 1: "login example_login_env example_users ?req_ana 100 =
     (example_users,
      \<lparr>status = 200, body = MustChangePasswordBody 1 DebeCambiarContrasena,
       cookie = CookieUntouched\<rparr>)"
    and 2: "body_accessToken (body (snd (login example_login_env example_users ?req_ana 100)))
       = None"
    using C10_login_with_pending_password_change [OF ana pw_ana, of 100] by simp_all
  have 3: "status (snd (login example_login_env example_users ?req_luis 100)) = 200"
    and 4: "body_accessToken (body (snd (login example_login_env example_users ?req_luis 100)))
       = Some ''access''"
    using C10_login_with_pending_password_change [OF luis pw_luis, of 100]
    by (simp_all add: example_login_env_def)
  show ?thesis using 1 2 3 4 by (intro conjI)
qed

end
